theory Spec2Isabelle
  imports Complex_Main
begin

unbundle bit_operations_syntax

section \<open>The energy hub model builder of EnergyHub.py\<close>

text \<open>
  \<^verbatim>\<open>EnergyHub.createModel\<close> builds a Pyomo \<^verbatim>\<open>ConcreteModel\<close> statement by statement:
  eight sets, the parameters, the decision variables and four constraint families.
  The embedding follows the method line by line. Every statement of the method is a
  function from the model built so far to either an error (the exception that the
  statement raises) or the model with one more component.

  Time steps are integers; energy carriers (\<^verbatim>\<open>Inputs\<close>) and energy services
  (\<^verbatim>\<open>Outputs\<close>) are names. Parameter values are real numbers.
\<close>

type_synonym time = int
type_synonym carrier = string
type_synonym service = string

subsection \<open>Exceptions\<close>

text \<open>
  The exceptions that can leave \<^verbatim>\<open>createModel\<close>, each with the name of the component
  that raised it. The source defines no exception class of its own.
\<close>

datatype error = ValueError string | KeyError string

definition bindE :: "error + 'a \<Rightarrow> ('a \<Rightarrow> error + 'b) \<Rightarrow> error + 'b" where
  "bindE r f = (case r of Inl e \<Rightarrow> Inl e | Inr x \<Rightarrow> f x)"

fun mapE :: "('a \<Rightarrow> error + 'b) \<Rightarrow> 'a list \<Rightarrow> error + 'b list" where
  "mapE f [] = Inr []"
| "mapE f (x # xs) =
     (case f x of Inl e \<Rightarrow> Inl e
      | Inr y \<Rightarrow> (case mapE f xs of Inl e \<Rightarrow> Inl e | Inr ys \<Rightarrow> Inr (y # ys)))"

text \<open>Running a block of statements: the first exception ends the block.\<close>

fun statements :: "('s \<Rightarrow> error + 's) list \<Rightarrow> 's \<Rightarrow> error + 's" where
  "statements [] m = Inr m"
| "statements (f # fs) m = (case f m of Inl e \<Rightarrow> Inl e | Inr m' \<Rightarrow> statements fs m')"

subsection \<open>The Pyomo components that the method uses\<close>

text \<open>
  \<^verbatim>\<open>pe.Set(initialize = xs, within = D)\<close>: an insertion-ordered set. A repeated member
  is ignored; a member outside the \<^verbatim>\<open>within\<close> set makes the construction fail with a
  \<^verbatim>\<open>ValueError\<close>. Without \<^verbatim>\<open>within\<close> every member is accepted.
\<close>

definition ordered_members :: "'a list \<Rightarrow> 'a list" where
  "ordered_members xs = rev (remdups (rev xs))"

definition pe_Set :: "string \<Rightarrow> 'a list \<Rightarrow> 'a list option \<Rightarrow> error + 'a list" where
  "pe_Set name init within_set =
     (case within_set of
        None \<Rightarrow> Inr (ordered_members init)
      | Some D \<Rightarrow>
          if list_all (\<lambda>x. x \<in> set D) init then Inr (ordered_members init)
          else Inl (ValueError name))"

text \<open>
  \<^verbatim>\<open>pe.Param(index, initialize = d, default = v)\<close>: a parameter over an index set. The
  dictionary \<^verbatim>\<open>d\<close> is an association list; a key of \<^verbatim>\<open>d\<close> outside the index set makes
  the construction fail with a \<^verbatim>\<open>KeyError\<close>. A parameter declared without
  \<^verbatim>\<open>initialize\<close> holds no value. The parameters of the source have Pyomo's default
  domain \<^verbatim>\<open>Any\<close>: no value is rejected. A scalar parameter is indexed by \<open>()\<close>.
\<close>

record 'k Param =
  p_index :: "'k list"
  p_values :: "('k \<times> real) list"
  p_default :: "real option"

definition pe_Param ::
  "string \<Rightarrow> 'k list \<Rightarrow> ('k \<times> real) list option \<Rightarrow> real option \<Rightarrow> error + 'k Param" where
  "pe_Param name idx init dflt =
     (case init of
        None \<Rightarrow> Inr \<lparr>p_index = idx, p_values = [], p_default = dflt\<rparr>
      | Some d \<Rightarrow>
          if list_all (\<lambda>k. k \<in> set idx) (map fst d)
          then Inr \<lparr>p_index = idx, p_values = d, p_default = dflt\<rparr>
          else Inl (KeyError name))"

definition pe_Param_scalar :: "real option \<Rightarrow> real option \<Rightarrow> error + unit Param" where
  "pe_Param_scalar init dflt =
     Inr \<lparr>p_index = [()],
          p_values = (case init of None \<Rightarrow> [] | Some v \<Rightarrow> [((), v)]),
          p_default = dflt\<rparr>"

text \<open>
  Reading \<^verbatim>\<open>m.Name[k]\<close>: a \<^verbatim>\<open>KeyError\<close> outside the index set; the stored value, else
  the default; a \<^verbatim>\<open>ValueError\<close> when the parameter has neither.
\<close>

definition param_get :: "string \<Rightarrow> 'k Param \<Rightarrow> 'k \<Rightarrow> error + real" where
  "param_get name p k =
     (if k \<notin> set (p_index p) then Inl (KeyError name)
      else case map_of (p_values p) k of
             Some v \<Rightarrow> Inr v
           | None \<Rightarrow> (case p_default p of Some d \<Rightarrow> Inr d | None \<Rightarrow> Inl (ValueError name)))"

text \<open>The decision variables, named as in the source, and their domains.\<close>

datatype var =
    P_var time carrier
  | P_export_var time service
  | y_var carrier
  | Capacity_var carrier
  | Qin_var time service
  | Qout_var time service
  | E_var time service
  | y_stor_var service
  | Storage_cap_var service
  | Operating_cost_var
  | Income_via_exports_var
  | investment_cost_var
  | Total_cost_var
  | Total_carbon_var

datatype domain = NonNegativeReals | Binary

fun in_domain :: "domain \<Rightarrow> real \<Rightarrow> bool" where
  "in_domain NonNegativeReals x = (0 \<le> x)"
| "in_domain Binary x = (x = 0 \<or> x = 1)"

text \<open>
  The expressions that the constraint rules build with \<^verbatim>\<open>+\<close>, \<^verbatim>\<open>-\<close> and \<^verbatim>\<open>*\<close>, and the
  relational expressions built with \<^verbatim>\<open>==\<close> and \<^verbatim>\<open><=\<close>.
\<close>

datatype expr =
    ENum real
  | EVar var
  | EAdd expr expr
  | ESub expr expr
  | EMul expr expr

datatype relation = EqualityExpression expr expr | InequalityExpression expr expr

fun eval :: "(var \<Rightarrow> real) \<Rightarrow> expr \<Rightarrow> real" where
  "eval a (ENum c) = c"
| "eval a (EVar v) = a v"
| "eval a (EAdd e f) = eval a e + eval a f"
| "eval a (ESub e f) = eval a e - eval a f"
| "eval a (EMul e f) = eval a e * eval a f"

fun holds :: "(var \<Rightarrow> real) \<Rightarrow> relation \<Rightarrow> bool" where
  "holds a (EqualityExpression e f) = (eval a e = eval a f)"
| "holds a (InequalityExpression e f) = (eval a e \<le> eval a f)"

text \<open>Python's \<^verbatim>\<open>sum\<close> over a generator: starts at 0 and adds from the left.\<close>

definition py_sum :: "expr list \<Rightarrow> expr" where
  "py_sum es = foldl EAdd (ENum 0) es"

text \<open>
  \<^verbatim>\<open>pe.Constraint(index, rule = r)\<close> calls the rule at every index, in order. An exception
  in the rule ends the construction. A rule is expected to return a relational
  expression. What becomes of an index at which the rule returns Python's \<^verbatim>\<open>None\<close> is
  decided by the library, not by this repository, and is a parameter of the embedding:
  Pyomo rejects it with a \<^verbatim>\<open>ValueError\<close> (\<open>NoneRaises\<close>); \<open>NoneSkips\<close> is the reading
  in which no constraint is emitted at that index and the construction goes on.
\<close>

datatype none_policy = NoneRaises | NoneSkips

fun pe_Constraint ::
  "none_policy \<Rightarrow> string \<Rightarrow> 'k list \<Rightarrow> ('k \<Rightarrow> error + relation option)
     \<Rightarrow> error + ('k \<times> relation) list" where
  "pe_Constraint pol name [] rule = Inr []"
| "pe_Constraint pol name (k # ks) rule =
     (case rule k of
        Inl e \<Rightarrow> Inl e
      | Inr None \<Rightarrow>
          (case pol of NoneRaises \<Rightarrow> Inl (ValueError name)
                     | NoneSkips \<Rightarrow> pe_Constraint pol name ks rule)
      | Inr (Some r) \<Rightarrow>
          (case pe_Constraint pol name ks rule of
             Inl e \<Rightarrow> Inl e
           | Inr cs \<Rightarrow> Inr ((k, r) # cs)))"

subsection \<open>The input data and the model\<close>

text \<open>
  \<^verbatim>\<open>self.inp\<close>: the data module that \<^verbatim>\<open>__init__\<close> imports. It gives the eight sets as
  lists, the indexed parameters as dictionaries and the scalar parameters as numbers.
\<close>

record hub_input =
  inp_Time :: "time list"
  inp_First_hour :: "time list"
  inp_Inputs :: "carrier list"
  inp_Solar_inputs :: "carrier list"
  inp_Inputs_wo_grid :: "carrier list"
  inp_Dispatchable_Tech :: "carrier list"
  inp_CHP_Tech :: "carrier list"
  inp_Outputs :: "service list"
  inp_Loads :: "((time \<times> service) \<times> real) list"
  inp_Number_of_days :: "(time \<times> real) list"
  inp_Cmatrix :: "((service \<times> carrier) \<times> real) list"
  inp_Storage_max_charge :: "(service \<times> real) list"
  inp_Storage_max_discharge :: "(service \<times> real) list"
  inp_Storage_standing_losses :: "(service \<times> real) list"
  inp_Storage_charging_eff :: "(service \<times> real) list"
  inp_Storage_discharging_eff :: "(service \<times> real) list"
  inp_Storage_max_cap :: "(service \<times> real) list"
  inp_Lifetime_tech :: "(carrier \<times> real) list"
  inp_Lifetime_stor :: "(service \<times> real) list"
  inp_Network_efficiency :: "(service \<times> real) list"
  inp_Network_length :: "(service \<times> real) list"
  inp_Network_lifetime :: real
  inp_Operating_costs :: "(carrier \<times> real) list"
  inp_Linear_inv_costs :: "(carrier \<times> real) list"
  inp_Fixed_inv_costs :: "(carrier \<times> real) list"
  inp_Linear_stor_costs :: "(service \<times> real) list"
  inp_Fixed_stor_costs :: "(service \<times> real) list"
  inp_Net_inv_cost_per_m :: real
  inp_FiT :: "(service \<times> real) list"
  inp_Interest_rate :: real
  inp_Roof_area :: real
  inp_P_solar :: "((time \<times> carrier) \<times> real) list"

text \<open>
  \<^verbatim>\<open>self.m\<close>: the model. The declared variables are kept in one list, each with its
  domain, in the order of declaration; each constraint family is the list of its
  indices with the relational expression at that index.
\<close>

record model =
  Time :: "time list"
  First_hour :: "time list"
  Inputs :: "carrier list"
  Solar_inputs :: "carrier list"
  Inputs_wo_grid :: "carrier list"
  Dispatchable_Tech :: "carrier list"
  CHP_Tech :: "carrier list"
  Outputs :: "service list"
  Loads :: "(time \<times> service) Param"
  Number_of_days :: "time Param"
  Cmatrix :: "(service \<times> carrier) Param"
  Storage_max_charge :: "service Param"
  Storage_max_discharge :: "service Param"
  Storage_standing_losses :: "service Param"
  Storage_charging_eff :: "service Param"
  Storage_discharging_eff :: "service Param"
  Storage_max_cap :: "service Param"
  Lifetime_tech :: "carrier Param"
  Lifetime_stor :: "service Param"
  Network_efficiency :: "service Param"
  Network_length :: "service Param"
  Network_lifetime :: "unit Param"
  Operating_costs :: "carrier Param"
  Linear_inv_costs :: "carrier Param"
  Fixed_inv_costs :: "carrier Param"
  Linear_stor_costs :: "service Param"
  Fixed_stor_costs :: "service Param"
  Net_inv_cost_per_m :: "unit Param"
  FiT :: "service Param"
  Interest_rate :: "unit Param"
  CRF_tech :: "carrier Param"
  CRF_stor :: "carrier Param"
  CRF_network :: "unit Param"
  Carbon_factors :: "carrier Param"
  Roof_area :: "unit Param"
  P_solar :: "(time \<times> carrier) Param"
  BigM :: "unit Param"
  variables :: "(var \<times> domain) list"
  Load_balance :: "((time \<times> service) \<times> relation) list"
  Capacity_constraint :: "((time \<times> carrier \<times> service) \<times> relation) list"
  Solar_input :: "((time \<times> carrier \<times> service) \<times> relation) list"
  Fixed_cost_constr :: "(carrier \<times> relation) list"

definition no_Param :: "'k Param" where
  "no_Param = \<lparr>p_index = [], p_values = [], p_default = None\<rparr>"

text \<open>\<^verbatim>\<open>pe.ConcreteModel()\<close>: the model with no component yet.\<close>

definition ConcreteModel :: model where
  "ConcreteModel =
     \<lparr>Time = [], First_hour = [], Inputs = [], Solar_inputs = [], Inputs_wo_grid = [],
      Dispatchable_Tech = [], CHP_Tech = [], Outputs = [],
      Loads = no_Param, Number_of_days = no_Param, Cmatrix = no_Param,
      Storage_max_charge = no_Param, Storage_max_discharge = no_Param,
      Storage_standing_losses = no_Param, Storage_charging_eff = no_Param,
      Storage_discharging_eff = no_Param, Storage_max_cap = no_Param,
      Lifetime_tech = no_Param, Lifetime_stor = no_Param, Network_efficiency = no_Param,
      Network_length = no_Param, Network_lifetime = no_Param,
      Operating_costs = no_Param, Linear_inv_costs = no_Param, Fixed_inv_costs = no_Param,
      Linear_stor_costs = no_Param, Fixed_stor_costs = no_Param,
      Net_inv_cost_per_m = no_Param, FiT = no_Param, Interest_rate = no_Param,
      CRF_tech = no_Param, CRF_stor = no_Param, CRF_network = no_Param,
      Carbon_factors = no_Param, Roof_area = no_Param, P_solar = no_Param,
      BigM = no_Param, variables = [],
      Load_balance = [], Capacity_constraint = [], Solar_input = [],
      Fixed_cost_constr = []\<rparr>"

text \<open>\<^verbatim>\<open>pe.Var(index, within = d)\<close>: one variable per index, all with domain \<open>d\<close>.\<close>

definition pe_Var :: "var list \<Rightarrow> domain \<Rightarrow> model \<Rightarrow> error + model" where
  "pe_Var vs d m = Inr (m\<lparr>variables := variables m @ map (\<lambda>v. (v, d)) vs\<rparr>)"

subsection \<open>The constraint rules\<close>

text \<open>
  \<^verbatim>\<open>Load_balance_rule(m, t, out)\<close> returns
  \<^verbatim>\<open>sum(m.P[t,inp] * m.Cmatrix[out,inp] for inp in m.Inputs) + m.Qout[t,out] - m.Qin[t,out]
     == m.Loads[t,out] + m.P_export[t,out]\<close>.
  The variables read by the rules are indexed by members of the declared index sets, so
  reading a variable does not fail; reading a parameter can.
\<close>

definition Load_balance_rule :: "model \<Rightarrow> time \<Rightarrow> service \<Rightarrow> error + relation option" where
  "Load_balance_rule m t out =
     bindE (mapE (\<lambda>inp. bindE (param_get ''Cmatrix'' (Cmatrix m) (out, inp))
                          (\<lambda>c. Inr (EMul (EVar (P_var t inp)) (ENum c))))
                 (Inputs m))
       (\<lambda>terms.
     bindE (param_get ''Loads'' (Loads m) (t, out))
       (\<lambda>load.
     Inr (Some (EqualityExpression
                 (ESub (EAdd (py_sum terms) (EVar (Qout_var t out))) (EVar (Qin_var t out)))
                 (EAdd (ENum load) (EVar (P_export_var t out)))))))"

text \<open>
  \<^verbatim>\<open>Capacity_constraint_rule(m, t, disp, out)\<close> returns
  \<^verbatim>\<open>m.P[t,disp] * m.Cmatrix[out,disp] <= m.Capacity[disp]\<close>.
\<close>

definition Capacity_constraint_rule ::
  "model \<Rightarrow> time \<Rightarrow> carrier \<Rightarrow> service \<Rightarrow> error + relation option" where
  "Capacity_constraint_rule m t disp out =
     bindE (param_get ''Cmatrix'' (Cmatrix m) (out, disp))
       (\<lambda>c.
     Inr (Some (InequalityExpression
                 (EMul (EVar (P_var t disp)) (ENum c))
                 (EVar (Capacity_var disp)))))"

text \<open>
  \<^verbatim>\<open>Solar_input_rule(m, t, sol, out)\<close> returns
  \<^verbatim>\<open>m.P[t,sol] == m.P_solar[t,sol] * m.Capacity[sol]\<close>.
\<close>

definition Solar_input_rule ::
  "model \<Rightarrow> time \<Rightarrow> carrier \<Rightarrow> service \<Rightarrow> error + relation option" where
  "Solar_input_rule m t sol out =
     bindE (param_get ''P_solar'' (P_solar m) (t, sol))
       (\<lambda>s.
     Inr (Some (EqualityExpression
                 (EVar (P_var t sol))
                 (EMul (ENum s) (EVar (Capacity_var sol))))))"

text \<open>
  \<^verbatim>\<open>Fixed_cost_constr_rule(m, inp)\<close> evaluates
  \<^verbatim>\<open>m.Capacity[inp] <= m.BigM * m.y[inp]\<close> as an expression statement and ends without a
  \<^verbatim>\<open>return\<close>: the comparison is built and dropped, and the rule returns \<^verbatim>\<open>None\<close>.
\<close>

definition Fixed_cost_constr_rule :: "model \<Rightarrow> carrier \<Rightarrow> error + relation option" where
  "Fixed_cost_constr_rule m inp =
     bindE (param_get ''BigM'' (BigM m) ())
       (\<lambda>bigM.
     let dropped = InequalityExpression
                     (EVar (Capacity_var inp))
                     (EMul (ENum bigM) (EVar (y_var inp)))
     in Inr None)"

subsection \<open>createModel\<close>

text \<open>Model sets (lines 33 to 40 of the source).\<close>

definition model_sets :: "hub_input \<Rightarrow> (model \<Rightarrow> error + model) list" where
  "model_sets inp =
     [(\<lambda>m. bindE (pe_Set ''Time'' (inp_Time inp) None) (\<lambda>s. Inr (m\<lparr>Time := s\<rparr>))),
      (\<lambda>m. bindE (pe_Set ''First_hour'' (inp_First_hour inp) (Some (Time m))) (\<lambda>s. Inr (m\<lparr>First_hour := s\<rparr>))),
      (\<lambda>m. bindE (pe_Set ''Inputs'' (inp_Inputs inp) None) (\<lambda>s. Inr (m\<lparr>Inputs := s\<rparr>))),
      (\<lambda>m. bindE (pe_Set ''Solar_inputs'' (inp_Solar_inputs inp) (Some (Inputs m))) (\<lambda>s. Inr (m\<lparr>Solar_inputs := s\<rparr>))),
      (\<lambda>m. bindE (pe_Set ''Inputs_wo_grid'' (inp_Inputs_wo_grid inp) None) (\<lambda>s. Inr (m\<lparr>Inputs_wo_grid := s\<rparr>))),
      (\<lambda>m. bindE (pe_Set ''Dispatchable_Tech'' (inp_Dispatchable_Tech inp) (Some (Inputs m))) (\<lambda>s. Inr (m\<lparr>Dispatchable_Tech := s\<rparr>))),
      (\<lambda>m. bindE (pe_Set ''CHP_Tech'' (inp_CHP_Tech inp) (Some (Inputs m))) (\<lambda>s. Inr (m\<lparr>CHP_Tech := s\<rparr>))),
      (\<lambda>m. bindE (pe_Set ''Outputs'' (inp_Outputs inp) None) (\<lambda>s. Inr (m\<lparr>Outputs := s\<rparr>)))]"

text \<open>Load parameters.\<close>

definition load_parameters :: "hub_input \<Rightarrow> (model \<Rightarrow> error + model) list" where
  "load_parameters inp =
     [(\<lambda>m. bindE (pe_Param ''Loads'' (List.product (Time m) (Outputs m)) (Some (inp_Loads inp)) None) (\<lambda>p. Inr (m\<lparr>Loads := p\<rparr>))),
      (\<lambda>m. bindE (pe_Param ''Number_of_days'' (Time m) (Some (inp_Number_of_days inp)) None) (\<lambda>p. Inr (m\<lparr>Number_of_days := p\<rparr>)))]"

text \<open>Technical parameters.\<close>

definition technical_parameters :: "hub_input \<Rightarrow> (model \<Rightarrow> error + model) list" where
  "technical_parameters inp =
     [(\<lambda>m. bindE (pe_Param ''Cmatrix'' (List.product (Outputs m) (Inputs m)) (Some (inp_Cmatrix inp)) None) (\<lambda>p. Inr (m\<lparr>Cmatrix := p\<rparr>))),
      (\<lambda>m. bindE (pe_Param ''Storage_max_charge'' (Outputs m) (Some (inp_Storage_max_charge inp)) None) (\<lambda>p. Inr (m\<lparr>Storage_max_charge := p\<rparr>))),
      (\<lambda>m. bindE (pe_Param ''Storage_max_discharge'' (Outputs m) (Some (inp_Storage_max_discharge inp)) None) (\<lambda>p. Inr (m\<lparr>Storage_max_discharge := p\<rparr>))),
      (\<lambda>m. bindE (pe_Param ''Storage_standing_losses'' (Outputs m) (Some (inp_Storage_standing_losses inp)) None) (\<lambda>p. Inr (m\<lparr>Storage_standing_losses := p\<rparr>))),
      (\<lambda>m. bindE (pe_Param ''Storage_charging_eff'' (Outputs m) (Some (inp_Storage_charging_eff inp)) None) (\<lambda>p. Inr (m\<lparr>Storage_charging_eff := p\<rparr>))),
      (\<lambda>m. bindE (pe_Param ''Storage_discharging_eff'' (Outputs m) (Some (inp_Storage_discharging_eff inp)) None) (\<lambda>p. Inr (m\<lparr>Storage_discharging_eff := p\<rparr>))),
      (\<lambda>m. bindE (pe_Param ''Storage_max_cap'' (Outputs m) (Some (inp_Storage_max_cap inp)) None) (\<lambda>p. Inr (m\<lparr>Storage_max_cap := p\<rparr>))),
      (\<lambda>m. bindE (pe_Param ''Lifetime_tech'' (Inputs m) (Some (inp_Lifetime_tech inp)) None) (\<lambda>p. Inr (m\<lparr>Lifetime_tech := p\<rparr>))),
      (\<lambda>m. bindE (pe_Param ''Lifetime_stor'' (Outputs m) (Some (inp_Lifetime_stor inp)) None) (\<lambda>p. Inr (m\<lparr>Lifetime_stor := p\<rparr>))),
      (\<lambda>m. bindE (pe_Param ''Network_efficiency'' (Outputs m) (Some (inp_Network_efficiency inp)) None) (\<lambda>p. Inr (m\<lparr>Network_efficiency := p\<rparr>))),
      (\<lambda>m. bindE (pe_Param ''Network_length'' (Outputs m) (Some (inp_Network_length inp)) None) (\<lambda>p. Inr (m\<lparr>Network_length := p\<rparr>))),
      (\<lambda>m. bindE (pe_Param_scalar (Some (inp_Network_lifetime inp)) None) (\<lambda>p. Inr (m\<lparr>Network_lifetime := p\<rparr>)))]"

text \<open>Cost parameters. The three capital recovery factors are declared without
  \<^verbatim>\<open>initialize\<close>, \<^verbatim>\<open>default\<close> or rule, \<^verbatim>\<open>CRF_stor\<close> over \<^verbatim>\<open>Inputs\<close> as in the source.\<close>

definition cost_parameters :: "hub_input \<Rightarrow> (model \<Rightarrow> error + model) list" where
  "cost_parameters inp =
     [(\<lambda>m. bindE (pe_Param ''Operating_costs'' (Inputs m) (Some (inp_Operating_costs inp)) None) (\<lambda>p. Inr (m\<lparr>Operating_costs := p\<rparr>))),
      (\<lambda>m. bindE (pe_Param ''Linear_inv_costs'' (Inputs m) (Some (inp_Linear_inv_costs inp)) None) (\<lambda>p. Inr (m\<lparr>Linear_inv_costs := p\<rparr>))),
      (\<lambda>m. bindE (pe_Param ''Fixed_inv_costs'' (Inputs m) (Some (inp_Fixed_inv_costs inp)) None) (\<lambda>p. Inr (m\<lparr>Fixed_inv_costs := p\<rparr>))),
      (\<lambda>m. bindE (pe_Param ''Linear_stor_costs'' (Outputs m) (Some (inp_Linear_stor_costs inp)) None) (\<lambda>p. Inr (m\<lparr>Linear_stor_costs := p\<rparr>))),
      (\<lambda>m. bindE (pe_Param ''Fixed_stor_costs'' (Outputs m) (Some (inp_Fixed_stor_costs inp)) None) (\<lambda>p. Inr (m\<lparr>Fixed_stor_costs := p\<rparr>))),
      (\<lambda>m. bindE (pe_Param_scalar (Some (inp_Net_inv_cost_per_m inp)) None) (\<lambda>p. Inr (m\<lparr>Net_inv_cost_per_m := p\<rparr>))),
      (\<lambda>m. bindE (pe_Param ''FiT'' (Outputs m) (Some (inp_FiT inp)) None) (\<lambda>p. Inr (m\<lparr>FiT := p\<rparr>))),
      (\<lambda>m. bindE (pe_Param_scalar (Some (inp_Interest_rate inp)) None) (\<lambda>p. Inr (m\<lparr>Interest_rate := p\<rparr>))),
      (\<lambda>m. bindE (pe_Param ''CRF_tech'' (Inputs m) None None) (\<lambda>p. Inr (m\<lparr>CRF_tech := p\<rparr>))),
      (\<lambda>m. bindE (pe_Param ''CRF_stor'' (Inputs m) None None) (\<lambda>p. Inr (m\<lparr>CRF_stor := p\<rparr>))),
      (\<lambda>m. bindE (pe_Param_scalar None None) (\<lambda>p. Inr (m\<lparr>CRF_network := p\<rparr>)))]"

text \<open>Environmental parameters: \<^verbatim>\<open>Carbon_factors\<close> is declared without \<^verbatim>\<open>initialize\<close>.\<close>

definition environmental_parameters :: "hub_input \<Rightarrow> (model \<Rightarrow> error + model) list" where
  "environmental_parameters inp =
     [(\<lambda>m. bindE (pe_Param ''Carbon_factors'' (Inputs m) None None) (\<lambda>p. Inr (m\<lparr>Carbon_factors := p\<rparr>)))]"

text \<open>
  Misc parameters. The default of \<^verbatim>\<open>BigM\<close> is written \<^verbatim>\<open>10^5\<close> in the source; in
  Python \<^verbatim>\<open>^\<close> is the bitwise exclusive or of the two integers.
\<close>

definition BigM_default :: int where
  "BigM_default = 10 XOR 5"

text \<open>The three statements of the section.\<close>

definition misc_parameters :: "hub_input \<Rightarrow> (model \<Rightarrow> error + model) list" where
  "misc_parameters inp =
     [(\<lambda>m. bindE (pe_Param_scalar (Some (inp_Roof_area inp)) None) (\<lambda>p. Inr (m\<lparr>Roof_area := p\<rparr>))),
      (\<lambda>m. bindE (pe_Param ''P_solar'' (List.product (Time m) (Solar_inputs m)) (Some (inp_P_solar inp)) None) (\<lambda>p. Inr (m\<lparr>P_solar := p\<rparr>))),
      (\<lambda>m. bindE (pe_Param_scalar None (Some (real_of_int BigM_default))) (\<lambda>p. Inr (m\<lparr>BigM := p\<rparr>)))]"

text \<open>Generation technologies: \<^verbatim>\<open>P\<close>, \<^verbatim>\<open>P_export\<close>, \<^verbatim>\<open>y\<close> (binary) and \<^verbatim>\<open>Capacity\<close>.\<close>

definition generation_variables :: "(model \<Rightarrow> error + model) list" where
  "generation_variables =
     [(\<lambda>m. pe_Var (map (\<lambda>(t, k). P_var t k) (List.product (Time m) (Inputs m))) NonNegativeReals m),
      (\<lambda>m. pe_Var (map (\<lambda>(t, k). P_export_var t k) (List.product (Time m) (Outputs m))) NonNegativeReals m),
      (\<lambda>m. pe_Var (map y_var (Inputs m)) Binary m),
      (\<lambda>m. pe_Var (map Capacity_var (Inputs m)) NonNegativeReals m)]"

text \<open>Storage technologies. \<^verbatim>\<open>y_stor\<close> is declared within \<^verbatim>\<open>NonNegativeReals\<close> in the source.\<close>

definition storage_variables :: "(model \<Rightarrow> error + model) list" where
  "storage_variables =
     [(\<lambda>m. pe_Var (map (\<lambda>(t, k). Qin_var t k) (List.product (Time m) (Outputs m))) NonNegativeReals m),
      (\<lambda>m. pe_Var (map (\<lambda>(t, k). Qout_var t k) (List.product (Time m) (Outputs m))) NonNegativeReals m),
      (\<lambda>m. pe_Var (map (\<lambda>(t, k). E_var t k) (List.product (Time m) (Outputs m))) NonNegativeReals m),
      (\<lambda>m. pe_Var (map y_stor_var (Outputs m)) NonNegativeReals m),
      (\<lambda>m. pe_Var (map Storage_cap_var (Outputs m)) NonNegativeReals m)]"

text \<open>Objective function components: five scalar variables.\<close>

definition objective_variables :: "(model \<Rightarrow> error + model) list" where
  "objective_variables =
     [(\<lambda>m. pe_Var [Operating_cost_var] NonNegativeReals m),
      (\<lambda>m. pe_Var [Income_via_exports_var] NonNegativeReals m),
      (\<lambda>m. pe_Var [investment_cost_var] NonNegativeReals m),
      (\<lambda>m. pe_Var [Total_cost_var] NonNegativeReals m),
      (\<lambda>m. pe_Var [Total_carbon_var] NonNegativeReals m)]"

text \<open>Model constraints: the four \<^verbatim>\<open>pe.Constraint\<close> statements, each after its rule.\<close>

definition model_constraints :: "none_policy \<Rightarrow> (model \<Rightarrow> error + model) list" where
  "model_constraints pol =
     [(\<lambda>m. bindE (pe_Constraint pol ''Load_balance''
                   (List.product (Time m) (Outputs m))
                   (\<lambda>(t, out). Load_balance_rule m t out))
             (\<lambda>c. Inr (m\<lparr>Load_balance := c\<rparr>))),
      (\<lambda>m. bindE (pe_Constraint pol ''Capacity_constraint''
                   (List.product (Time m) (List.product (Dispatchable_Tech m) (Outputs m)))
                   (\<lambda>(t, disp, out). Capacity_constraint_rule m t disp out))
             (\<lambda>c. Inr (m\<lparr>Capacity_constraint := c\<rparr>))),
      (\<lambda>m. bindE (pe_Constraint pol ''Solar_input''
                   (List.product (Time m) (List.product (Solar_inputs m) (Outputs m)))
                   (\<lambda>(t, sol, out). Solar_input_rule m t sol out))
             (\<lambda>c. Inr (m\<lparr>Solar_input := c\<rparr>))),
      (\<lambda>m. bindE (pe_Constraint pol ''Fixed_cost_constr''
                   (Inputs m)
                   (\<lambda>inp. Fixed_cost_constr_rule m inp))
             (\<lambda>c. Inr (m\<lparr>Fixed_cost_constr := c\<rparr>)))]"

text \<open>
  \<^verbatim>\<open>createModel\<close>: the statements of the method in the order of the source (model sets,
  model parameters, model variables, model constraints), run on the empty
  \<^verbatim>\<open>ConcreteModel\<close>.
\<close>

definition model_parameters :: "hub_input \<Rightarrow> (model \<Rightarrow> error + model) list" where
  "model_parameters inp =
     load_parameters inp @ technical_parameters inp @ cost_parameters inp @
     environmental_parameters inp @ misc_parameters inp"

definition model_variables :: "(model \<Rightarrow> error + model) list" where
  "model_variables = generation_variables @ storage_variables @ objective_variables"

definition createModel :: "none_policy \<Rightarrow> hub_input \<Rightarrow> error + model" where
  "createModel pol inp =
     statements
       (model_sets inp @ model_parameters inp @ model_variables @ model_constraints pol)
       ConcreteModel"

text \<open>
  \<^verbatim>\<open>EnergyHub.__init__(input_file, num_of_pareto_points)\<close> imports the data module,
  stores the number of Pareto points and calls \<^verbatim>\<open>createModel\<close>; it has no other
  statement. \<^verbatim>\<open>solve\<close> has a docstring and comments only: it returns \<^verbatim>\<open>None\<close> and
  leaves the object as it is.
\<close>

record EnergyHub =
  self_inp :: hub_input
  self_num_of_pfp :: int
  self_m :: model


definition solve :: "EnergyHub \<Rightarrow> EnergyHub \<times> unit" where
  "solve hub = (hub, ())"

subsection \<open>Feasible assignments\<close>

text \<open>
  An assignment of values to the variables is feasible for a model when every declared
  variable lies in its domain and every emitted constraint holds.
\<close>

definition constraint_bodies :: "model \<Rightarrow> relation list" where
  "constraint_bodies m =
     map snd (Load_balance m) @ map snd (Capacity_constraint m) @
     map snd (Solar_input m) @ map snd (Fixed_cost_constr m)"

definition feasible :: "(var \<Rightarrow> real) \<Rightarrow> model \<Rightarrow> bool" where
  "feasible a m =
     (list_all (\<lambda>(v, d). in_domain d (a v)) (variables m) \<and>
      list_all (holds a) (constraint_bodies m))"

text \<open>The model builds from the data, and the assignment is feasible for the built model.\<close>

definition feasible_built :: "none_policy \<Rightarrow> hub_input \<Rightarrow> (var \<Rightarrow> real) \<Rightarrow> bool" where
  "feasible_built pol inp a =
     (case createModel pol inp of Inl e \<Rightarrow> False | Inr m \<Rightarrow> feasible a m)"

text \<open>Building the model and then reading \<^verbatim>\<open>m.CRF_network\<close> or \<^verbatim>\<open>m.BigM\<close>.\<close>

definition read_CRF_network :: "none_policy \<Rightarrow> hub_input \<Rightarrow> error + real" where
  "read_CRF_network pol inp =
     bindE (createModel pol inp) (\<lambda>m. param_get ''CRF_network'' (CRF_network m) ())"

definition read_BigM :: "none_policy \<Rightarrow> hub_input \<Rightarrow> error + real" where
  "read_BigM pol inp = bindE (createModel pol inp) (\<lambda>m. param_get ''BigM'' (BigM m) ())"

text \<open>The variables that occur in an expression and in a relational expression.\<close>

fun expr_vars :: "expr \<Rightarrow> var set" where
  "expr_vars (ENum c) = {}"
| "expr_vars (EVar v) = {v}"
| "expr_vars (EAdd e f) = expr_vars e \<union> expr_vars f"
| "expr_vars (ESub e f) = expr_vars e \<union> expr_vars f"
| "expr_vars (EMul e f) = expr_vars e \<union> expr_vars f"

fun relation_vars :: "relation \<Rightarrow> var set" where
  "relation_vars (EqualityExpression e f) = expr_vars e \<union> expr_vars f"
| "relation_vars (InequalityExpression e f) = expr_vars e \<union> expr_vars f"

text \<open>The variables declared by the three blocks of \<^verbatim>\<open>pe.Var\<close> statements.\<close>

definition declared_variables :: "model \<Rightarrow> (var \<times> domain) list" where
  "declared_variables m =
     map (\<lambda>v. (v, NonNegativeReals))
       (map (\<lambda>(t, k). P_var t k) (List.product (Time m) (Inputs m))) @
     map (\<lambda>v. (v, NonNegativeReals))
       (map (\<lambda>(t, k). P_export_var t k) (List.product (Time m) (Outputs m))) @
     map (\<lambda>v. (v, Binary)) (map y_var (Inputs m)) @
     map (\<lambda>v. (v, NonNegativeReals)) (map Capacity_var (Inputs m)) @
     map (\<lambda>v. (v, NonNegativeReals))
       (map (\<lambda>(t, k). Qin_var t k) (List.product (Time m) (Outputs m))) @
     map (\<lambda>v. (v, NonNegativeReals))
       (map (\<lambda>(t, k). Qout_var t k) (List.product (Time m) (Outputs m))) @
     map (\<lambda>v. (v, NonNegativeReals))
       (map (\<lambda>(t, k). E_var t k) (List.product (Time m) (Outputs m))) @
     map (\<lambda>v. (v, NonNegativeReals)) (map y_stor_var (Outputs m)) @
     map (\<lambda>v. (v, NonNegativeReals)) (map Storage_cap_var (Outputs m)) @
     map (\<lambda>v. (v, NonNegativeReals))
       [Operating_cost_var, Income_via_exports_var, investment_cost_var, Total_cost_var,
        Total_carbon_var]"

text \<open>
  The variables that the four rules mention in what they return, and the variables of the
  objective function components and of the storage state.
\<close>

fun rule_var :: "var \<Rightarrow> bool" where
  "rule_var (P_var t k) = True"
| "rule_var (P_export_var t k) = True"
| "rule_var (Capacity_var k) = True"
| "rule_var (Qin_var t k) = True"
| "rule_var (Qout_var t k) = True"
| "rule_var v = False"

definition objective_components :: "var list" where
  "objective_components =
     [Operating_cost_var, Income_via_exports_var, investment_cost_var, Total_cost_var,
      Total_carbon_var]"


subsection \<open>Example data\<close>

text \<open>
  A hub with two time steps of one typical day and one service, and no conversion
  technology: the demand can only be met from storage. The interest rate is 5 per cent
  and the lifetimes are 20 years.
\<close>

definition hub_no_carrier :: hub_input where
  "hub_no_carrier =
     \<lparr>inp_Time = [1, 2], inp_First_hour = [1], inp_Inputs = [], inp_Solar_inputs = [],
      inp_Inputs_wo_grid = [], inp_Dispatchable_Tech = [], inp_CHP_Tech = [],
      inp_Outputs = [''elec''],
      inp_Loads = [((1, ''elec''), 10), ((2, ''elec''), 10)],
      inp_Number_of_days = [(1, 365), (2, 365)],
      inp_Cmatrix = [],
      inp_Storage_max_charge = [(''elec'', 1)],
      inp_Storage_max_discharge = [(''elec'', 1)],
      inp_Storage_standing_losses = [(''elec'', 0)],
      inp_Storage_charging_eff = [(''elec'', 1)],
      inp_Storage_discharging_eff = [(''elec'', 1)],
      inp_Storage_max_cap = [(''elec'', 5)],
      inp_Lifetime_tech = [],
      inp_Lifetime_stor = [(''elec'', 20)],
      inp_Network_efficiency = [(''elec'', 1)],
      inp_Network_length = [(''elec'', 100)],
      inp_Network_lifetime = 20,
      inp_Operating_costs = [],
      inp_Linear_inv_costs = [],
      inp_Fixed_inv_costs = [],
      inp_Linear_stor_costs = [(''elec'', 1)],
      inp_Fixed_stor_costs = [(''elec'', 1)],
      inp_Net_inv_cost_per_m = 1,
      inp_FiT = [(''elec'', 0)],
      inp_Interest_rate = 5 / 100,
      inp_Roof_area = 0,
      inp_P_solar = []\<rparr>"

text \<open>The same hub with a grid connection (dispatchable) and a photovoltaic panel (solar).\<close>

definition hub_grid_pv :: hub_input where
  "hub_grid_pv =
     hub_no_carrier
       \<lparr>inp_Inputs := [''grid'', ''pv''], inp_Solar_inputs := [''pv''],
        inp_Inputs_wo_grid := [''pv''], inp_Dispatchable_Tech := [''grid''],
        inp_Cmatrix := [((''elec'', ''grid''), 1), ((''elec'', ''pv''), 15 / 100)],
        inp_Lifetime_tech := [(''grid'', 20), (''pv'', 20)],
        inp_Operating_costs := [(''grid'', 2 / 10), (''pv'', 0)],
        inp_Linear_inv_costs := [(''grid'', 0), (''pv'', 300)],
        inp_Fixed_inv_costs := [(''grid'', 0), (''pv'', 1000)],
        inp_Roof_area := 50,
        inp_P_solar := [((1, ''pv''), 0), ((2, ''pv''), 1 / 2)]\<rparr>"

text \<open>
  The hub without technology, with a set \<^verbatim>\<open>Inputs_wo_grid\<close> that has a member outside
  \<^verbatim>\<open>Inputs\<close>; with a set \<^verbatim>\<open>Solar_inputs\<close> that has a member outside \<^verbatim>\<open>Inputs\<close>; and
  with numeric data outside any physical range: a negative charging efficiency, a
  standing loss above 1 and a negative interest rate.
\<close>

definition hub_stray_carrier :: hub_input where
  "hub_stray_carrier = hub_no_carrier\<lparr>inp_Inputs_wo_grid := [''gas'']\<rparr>"

definition hub_stray_solar :: hub_input where
  "hub_stray_solar = hub_no_carrier\<lparr>inp_Solar_inputs := [''pv'']\<rparr>"


text \<open>
  Assignments for these hubs. In the first the demand is met from storage, the total cost
  is 7 and its three components are 0. In the second the state of charge is 7 in the
  second time step while the storage capacity is 0. In the third the grid supplies the
  demand through a capacity of 10 while its installation flag is 0.
\<close>

fun free_cost_assignment :: "var \<Rightarrow> real" where
  "free_cost_assignment (Qout_var t k) = 10"
| "free_cost_assignment Total_cost_var = 7"
| "free_cost_assignment v = 0"


fun uninstalled_grid_assignment :: "var \<Rightarrow> real" where
  "uninstalled_grid_assignment (P_var t k) = (if k = ''grid'' then 10 else 0)"
| "uninstalled_grid_assignment (Capacity_var k) = (if k = ''grid'' then 10 else 0)"
| "uninstalled_grid_assignment v = 0"

subsection \<open>Models that agree but for the data that no statement checks\<close>

text \<open>
  A model with the set \<^verbatim>\<open>Inputs_wo_grid\<close>, the storage efficiencies and standing losses,
  the network efficiencies and the interest rate removed; two models agree but for these
  when they are equal once the six components are removed.
\<close>

definition without_unchecked :: "model \<Rightarrow> model" where
  "without_unchecked m =
     m\<lparr>Inputs_wo_grid := [], Storage_standing_losses := no_Param,
       Storage_charging_eff := no_Param, Storage_discharging_eff := no_Param,
       Network_efficiency := no_Param, Interest_rate := no_Param\<rparr>"

definition agree_but_unchecked :: "model \<Rightarrow> model \<Rightarrow> bool" where
  "agree_but_unchecked m m' = (without_unchecked m = without_unchecked m')"

section \<open>Running the statements\<close>

lemma bindE_Inl [simp]: "bindE (Inl e) f = Inl e"
  and bindE_Inr [simp]: "bindE (Inr x) f = f x"
  by (simp_all add: bindE_def)

lemma bindE_eq_Inr: "bindE r f = Inr y \<longleftrightarrow> (\<exists>x. r = Inr x \<and> f x = Inr y)"
  by (cases r) simp_all

lemma statements_Cons_eq_Inr:
  "statements (f # fs) m = Inr m' \<longleftrightarrow> (\<exists>m1. f m = Inr m1 \<and> statements fs m1 = Inr m')"
  by (cases "f m") simp_all

lemma statements_append:
  "statements (fs @ gs) m = bindE (statements fs m) (statements gs)"
  by (induction fs arbitrary: m) (auto split: sum.splits)

lemma set_ordered_members [simp]: "set (ordered_members xs) = set xs"
  by (simp add: ordered_members_def)

lemma distinct_ordered_members [simp]: "distinct (ordered_members xs)"
  by (simp add: ordered_members_def)

lemma pe_Set_eq_Inr:
  "pe_Set name init w = Inr s \<longleftrightarrow>
     s = ordered_members init \<and> (case w of None \<Rightarrow> True | Some D \<Rightarrow> set init \<subseteq> set D)"
  by (auto simp: pe_Set_def list_all_iff split: option.splits)

lemma pe_Param_eq_Inr:
  "pe_Param name idx init dflt = Inr p \<longleftrightarrow>
     p = \<lparr>p_index = idx, p_values = (case init of None \<Rightarrow> [] | Some d \<Rightarrow> d),
          p_default = dflt\<rparr> \<and>
     (case init of None \<Rightarrow> True | Some d \<Rightarrow> fst ` set d \<subseteq> set idx)"
  by (auto simp: pe_Param_def list_all_iff split: option.splits)

lemma pe_Param_scalar_eq_Inr:
  "pe_Param_scalar init dflt = Inr p \<longleftrightarrow>
     p = \<lparr>p_index = [()], p_values = (case init of None \<Rightarrow> [] | Some v \<Rightarrow> [((), v)]),
          p_default = dflt\<rparr>"
  by (auto simp: pe_Param_scalar_def)

lemmas built_simps =
  statements_Cons_eq_Inr bindE_eq_Inr pe_Set_eq_Inr pe_Param_eq_Inr
  pe_Param_scalar_eq_Inr pe_Var_def

lemmas rule_defs =
  Load_balance_rule_def Capacity_constraint_rule_def Solar_input_rule_def
  Fixed_cost_constr_rule_def

lemma createModel_phases:
  "createModel pol inp = Inr m \<longleftrightarrow>
     (\<exists>m1 m2 m3.
        statements (model_sets inp) ConcreteModel = Inr m1 \<and>
        statements (model_parameters inp) m1 = Inr m2 \<and>
        statements model_variables m2 = Inr m3 \<and>
        statements (model_constraints pol) m3 = Inr m)"
  by (simp add: createModel_def statements_append bindE_eq_Inr)

lemma sets_phase:
  assumes "statements (model_sets inp) m0 = Inr m1"
  shows "Time m1 = ordered_members (inp_Time inp)"
    and "First_hour m1 = ordered_members (inp_First_hour inp)"
    and "Inputs m1 = ordered_members (inp_Inputs inp)"
    and "Solar_inputs m1 = ordered_members (inp_Solar_inputs inp)"
    and "Inputs_wo_grid m1 = ordered_members (inp_Inputs_wo_grid inp)"
    and "Dispatchable_Tech m1 = ordered_members (inp_Dispatchable_Tech inp)"
    and "CHP_Tech m1 = ordered_members (inp_CHP_Tech inp)"
    and "Outputs m1 = ordered_members (inp_Outputs inp)"
    and "set (inp_First_hour inp) \<subseteq> set (inp_Time inp)"
    and "set (inp_Solar_inputs inp) \<subseteq> set (inp_Inputs inp)"
    and "set (inp_Dispatchable_Tech inp) \<subseteq> set (inp_Inputs inp)"
    and "set (inp_CHP_Tech inp) \<subseteq> set (inp_Inputs inp)"
    and "variables m1 = variables m0"
  using assms unfolding model_sets_def
  by (auto simp: built_simps simp del: statements.simps(2))

lemma parameters_phase:
  assumes "statements (model_parameters inp) m1 = Inr m2"
  shows "Time m2 = Time m1" and "First_hour m2 = First_hour m1"
    and "Inputs m2 = Inputs m1" and "Solar_inputs m2 = Solar_inputs m1"
    and "Inputs_wo_grid m2 = Inputs_wo_grid m1"
    and "Dispatchable_Tech m2 = Dispatchable_Tech m1"
    and "CHP_Tech m2 = CHP_Tech m1" and "Outputs m2 = Outputs m1"
    and "variables m2 = variables m1"
    and "Loads m2 = \<lparr>p_index = List.product (Time m1) (Outputs m1),
                      p_values = inp_Loads inp, p_default = None\<rparr>"
    and "Cmatrix m2 = \<lparr>p_index = List.product (Outputs m1) (Inputs m1),
                        p_values = inp_Cmatrix inp, p_default = None\<rparr>"
    and "P_solar m2 = \<lparr>p_index = List.product (Time m1) (Solar_inputs m1),
                        p_values = inp_P_solar inp, p_default = None\<rparr>"
    and "BigM m2 = \<lparr>p_index = [()], p_values = [],
                     p_default = Some (real_of_int BigM_default)\<rparr>"
    and "CRF_tech m2 = \<lparr>p_index = Inputs m1, p_values = [], p_default = None\<rparr>"
    and "CRF_stor m2 = \<lparr>p_index = Inputs m1, p_values = [], p_default = None\<rparr>"
    and "CRF_network m2 = \<lparr>p_index = [()], p_values = [], p_default = None\<rparr>"
  using assms
  unfolding model_parameters_def load_parameters_def technical_parameters_def
    cost_parameters_def environmental_parameters_def misc_parameters_def
  by (simp_all add: built_simps del: statements.simps(2)) auto

lemma variables_phase:
  assumes "statements model_variables m2 = Inr m3"
  shows "m3 = m2\<lparr>variables := variables m2 @ declared_variables m2\<rparr>"
  using assms
  unfolding model_variables_def generation_variables_def storage_variables_def
    objective_variables_def declared_variables_def
  by (simp add: built_simps del: statements.simps(2))

lemma rule_frames [simp]:
  "Load_balance_rule (m\<lparr>Load_balance := c1\<rparr>) = Load_balance_rule m"
  "Capacity_constraint_rule (m\<lparr>Load_balance := c1\<rparr>) = Capacity_constraint_rule m"
  "Solar_input_rule (m\<lparr>Load_balance := c1\<rparr>) = Solar_input_rule m"
  "Solar_input_rule (m\<lparr>Capacity_constraint := c2\<rparr>) = Solar_input_rule m"
  "Fixed_cost_constr_rule (m\<lparr>Load_balance := c1\<rparr>) = Fixed_cost_constr_rule m"
  "Fixed_cost_constr_rule (m\<lparr>Capacity_constraint := c2\<rparr>) = Fixed_cost_constr_rule m"
  "Fixed_cost_constr_rule (m\<lparr>Solar_input := c3\<rparr>) = Fixed_cost_constr_rule m"
  by (simp_all add: rule_defs fun_eq_iff)

lemma constraints_phase:
  assumes "statements (model_constraints pol) m3 = Inr m"
  shows "\<exists>c1 c2 c3 c4.
           m = m3\<lparr>Load_balance := c1, Capacity_constraint := c2, Solar_input := c3,
                  Fixed_cost_constr := c4\<rparr> \<and>
           pe_Constraint pol ''Load_balance'' (List.product (Time m3) (Outputs m3))
             (\<lambda>(t, out). Load_balance_rule m3 t out) = Inr c1 \<and>
           pe_Constraint pol ''Capacity_constraint''
             (List.product (Time m3) (List.product (Dispatchable_Tech m3) (Outputs m3)))
             (\<lambda>(t, disp, out). Capacity_constraint_rule m3 t disp out) = Inr c2 \<and>
           pe_Constraint pol ''Solar_input''
             (List.product (Time m3) (List.product (Solar_inputs m3) (Outputs m3)))
             (\<lambda>(t, sol, out). Solar_input_rule m3 t sol out) = Inr c3 \<and>
           pe_Constraint pol ''Fixed_cost_constr'' (Inputs m3)
             (\<lambda>inp. Fixed_cost_constr_rule m3 inp) = Inr c4"
  using assms unfolding model_constraints_def
  by (auto simp: built_simps simp del: statements.simps(2))

lemmas createModel_unfold =
  createModel_def model_sets_def model_parameters_def model_variables_def
  load_parameters_def technical_parameters_def cost_parameters_def
  environmental_parameters_def misc_parameters_def generation_variables_def
  storage_variables_def objective_variables_def model_constraints_def

lemmas run_simps =
  pe_Set_def pe_Param_def pe_Param_scalar_def pe_Var_def ordered_members_def
  rule_defs param_get_def py_sum_def ConcreteModel_def no_Param_def BigM_default_def

lemma builds_hub_no_carrier: "\<exists>m. createModel pol hub_no_carrier = Inr m"
  by (simp add: createModel_unfold hub_no_carrier_def run_simps)

lemma rule_frames_more [simp]:
  "Load_balance_rule (m\<lparr>Capacity_constraint := c2\<rparr>) = Load_balance_rule m"
  "Load_balance_rule (m\<lparr>Solar_input := c3\<rparr>) = Load_balance_rule m"
  "Load_balance_rule (m\<lparr>Fixed_cost_constr := c4\<rparr>) = Load_balance_rule m"
  "Load_balance_rule (m\<lparr>variables := vs\<rparr>) = Load_balance_rule m"
  "Capacity_constraint_rule (m\<lparr>Capacity_constraint := c2\<rparr>) = Capacity_constraint_rule m"
  "Capacity_constraint_rule (m\<lparr>Solar_input := c3\<rparr>) = Capacity_constraint_rule m"
  "Capacity_constraint_rule (m\<lparr>Fixed_cost_constr := c4\<rparr>) = Capacity_constraint_rule m"
  "Capacity_constraint_rule (m\<lparr>variables := vs\<rparr>) = Capacity_constraint_rule m"
  "Solar_input_rule (m\<lparr>Solar_input := c3\<rparr>) = Solar_input_rule m"
  "Solar_input_rule (m\<lparr>Fixed_cost_constr := c4\<rparr>) = Solar_input_rule m"
  "Solar_input_rule (m\<lparr>variables := vs\<rparr>) = Solar_input_rule m"
  "Fixed_cost_constr_rule (m\<lparr>Fixed_cost_constr := c4\<rparr>) = Fixed_cost_constr_rule m"
  "Fixed_cost_constr_rule (m\<lparr>variables := vs\<rparr>) = Fixed_cost_constr_rule m"
  by (simp_all add: rule_defs fun_eq_iff)

lemma createModel_sets:
  assumes "createModel pol inp = Inr m"
  shows "Time m = ordered_members (inp_Time inp)"
    and "First_hour m = ordered_members (inp_First_hour inp)"
    and "Inputs m = ordered_members (inp_Inputs inp)"
    and "Solar_inputs m = ordered_members (inp_Solar_inputs inp)"
    and "Inputs_wo_grid m = ordered_members (inp_Inputs_wo_grid inp)"
    and "Dispatchable_Tech m = ordered_members (inp_Dispatchable_Tech inp)"
    and "CHP_Tech m = ordered_members (inp_CHP_Tech inp)"
    and "Outputs m = ordered_members (inp_Outputs inp)"
    and "set (inp_First_hour inp) \<subseteq> set (inp_Time inp)"
    and "set (inp_Solar_inputs inp) \<subseteq> set (inp_Inputs inp)"
    and "set (inp_Dispatchable_Tech inp) \<subseteq> set (inp_Inputs inp)"
    and "set (inp_CHP_Tech inp) \<subseteq> set (inp_Inputs inp)"
proof -
  from assms obtain m1 m2 m3 where
    p1: "statements (model_sets inp) ConcreteModel = Inr m1" and
    p2: "statements (model_parameters inp) m1 = Inr m2" and
    p3: "statements model_variables m2 = Inr m3" and
    p4: "statements (model_constraints pol) m3 = Inr m"
    by (auto simp: createModel_phases)
  note s = sets_phase [OF p1] and q = parameters_phase [OF p2]
    and v = variables_phase [OF p3]
  from constraints_phase [OF p4] obtain c1 c2 c3 c4 where
    m: "m = m3\<lparr>Load_balance := c1, Capacity_constraint := c2, Solar_input := c3,
                  Fixed_cost_constr := c4\<rparr>" by blast
  show "Time m = ordered_members (inp_Time inp)"
    and "First_hour m = ordered_members (inp_First_hour inp)"
    and "Inputs m = ordered_members (inp_Inputs inp)"
    and "Solar_inputs m = ordered_members (inp_Solar_inputs inp)"
    and "Inputs_wo_grid m = ordered_members (inp_Inputs_wo_grid inp)"
    and "Dispatchable_Tech m = ordered_members (inp_Dispatchable_Tech inp)"
    and "CHP_Tech m = ordered_members (inp_CHP_Tech inp)"
    and "Outputs m = ordered_members (inp_Outputs inp)"
    by (simp_all add: m v q s)
  show "set (inp_First_hour inp) \<subseteq> set (inp_Time inp)"
    and "set (inp_Solar_inputs inp) \<subseteq> set (inp_Inputs inp)"
    and "set (inp_Dispatchable_Tech inp) \<subseteq> set (inp_Inputs inp)"
    and "set (inp_CHP_Tech inp) \<subseteq> set (inp_Inputs inp)"
    by (rule s)+
qed

lemma createModel_params:
  assumes "createModel pol inp = Inr m"
  shows "Loads m = \<lparr>p_index = List.product (Time m) (Outputs m),
                      p_values = inp_Loads inp, p_default = None\<rparr>"
    and "Cmatrix m = \<lparr>p_index = List.product (Outputs m) (Inputs m),
                        p_values = inp_Cmatrix inp, p_default = None\<rparr>"
    and "P_solar m = \<lparr>p_index = List.product (Time m) (Solar_inputs m),
                        p_values = inp_P_solar inp, p_default = None\<rparr>"
    and "BigM m = \<lparr>p_index = [()], p_values = [],
                     p_default = Some (real_of_int BigM_default)\<rparr>"
    and "CRF_tech m = \<lparr>p_index = Inputs m, p_values = [], p_default = None\<rparr>"
    and "CRF_stor m = \<lparr>p_index = Inputs m, p_values = [], p_default = None\<rparr>"
    and "CRF_network m = \<lparr>p_index = [()], p_values = [], p_default = None\<rparr>"
proof -
  from assms obtain m1 m2 m3 where
    p1: "statements (model_sets inp) ConcreteModel = Inr m1" and
    p2: "statements (model_parameters inp) m1 = Inr m2" and
    p3: "statements model_variables m2 = Inr m3" and
    p4: "statements (model_constraints pol) m3 = Inr m"
    by (auto simp: createModel_phases)
  note q = parameters_phase [OF p2] and v = variables_phase [OF p3]
  from constraints_phase [OF p4] obtain c1 c2 c3 c4 where
    m: "m = m3\<lparr>Load_balance := c1, Capacity_constraint := c2, Solar_input := c3,
                  Fixed_cost_constr := c4\<rparr>" by blast
  show "Loads m = \<lparr>p_index = List.product (Time m) (Outputs m),
                      p_values = inp_Loads inp, p_default = None\<rparr>"
    and "Cmatrix m = \<lparr>p_index = List.product (Outputs m) (Inputs m),
                        p_values = inp_Cmatrix inp, p_default = None\<rparr>"
    and "P_solar m = \<lparr>p_index = List.product (Time m) (Solar_inputs m),
                        p_values = inp_P_solar inp, p_default = None\<rparr>"
    and "BigM m = \<lparr>p_index = [()], p_values = [],
                     p_default = Some (real_of_int BigM_default)\<rparr>"
    and "CRF_tech m = \<lparr>p_index = Inputs m, p_values = [], p_default = None\<rparr>"
    and "CRF_stor m = \<lparr>p_index = Inputs m, p_values = [], p_default = None\<rparr>"
    and "CRF_network m = \<lparr>p_index = [()], p_values = [], p_default = None\<rparr>"
    by (simp_all add: m v q)
qed

lemma declared_variables_frames [simp]:
  "declared_variables (m\<lparr>variables := vs\<rparr>) = declared_variables m"
  "declared_variables (m\<lparr>Load_balance := c1\<rparr>) = declared_variables m"
  "declared_variables (m\<lparr>Capacity_constraint := c2\<rparr>) = declared_variables m"
  "declared_variables (m\<lparr>Solar_input := c3\<rparr>) = declared_variables m"
  "declared_variables (m\<lparr>Fixed_cost_constr := c4\<rparr>) = declared_variables m"
  by (simp_all add: declared_variables_def)


lemma createModel_variables:
  assumes "createModel pol inp = Inr m"
  shows "variables m = declared_variables m"
proof -
  from assms obtain m1 m2 m3 where
    p1: "statements (model_sets inp) ConcreteModel = Inr m1" and
    p2: "statements (model_parameters inp) m1 = Inr m2" and
    p3: "statements model_variables m2 = Inr m3" and
    p4: "statements (model_constraints pol) m3 = Inr m"
    by (auto simp: createModel_phases)
  note s = sets_phase [OF p1] and q = parameters_phase [OF p2]
    and v = variables_phase [OF p3]
  from constraints_phase [OF p4] obtain c1 c2 c3 c4 where
    m: "m = m3\<lparr>Load_balance := c1, Capacity_constraint := c2, Solar_input := c3,
                  Fixed_cost_constr := c4\<rparr>" by blast
  have "variables m2 = []"
    by (simp add: q s ConcreteModel_def)
  then show ?thesis by (simp add: m v)
qed

lemma createModel_constraints:
  assumes "createModel pol inp = Inr m"
  shows "pe_Constraint pol ''Load_balance'' (List.product (Time m) (Outputs m))
           (\<lambda>(t, out). Load_balance_rule m t out) = Inr (Load_balance m)"
    and "pe_Constraint pol ''Capacity_constraint''
           (List.product (Time m) (List.product (Dispatchable_Tech m) (Outputs m)))
           (\<lambda>(t, disp, out). Capacity_constraint_rule m t disp out) =
         Inr (Capacity_constraint m)"
    and "pe_Constraint pol ''Solar_input''
           (List.product (Time m) (List.product (Solar_inputs m) (Outputs m)))
           (\<lambda>(t, sol, out). Solar_input_rule m t sol out) = Inr (Solar_input m)"
    and "pe_Constraint pol ''Fixed_cost_constr'' (Inputs m)
           (\<lambda>inp. Fixed_cost_constr_rule m inp) = Inr (Fixed_cost_constr m)"
proof -
  from assms obtain m1 m2 m3 where
    p4: "statements (model_constraints pol) m3 = Inr m"
    by (auto simp: createModel_phases)
  from constraints_phase [OF p4] obtain c1 c2 c3 c4 where
    m: "m = m3\<lparr>Load_balance := c1, Capacity_constraint := c2, Solar_input := c3,
                  Fixed_cost_constr := c4\<rparr>"
    and c: "pe_Constraint pol ''Load_balance'' (List.product (Time m3) (Outputs m3))
             (\<lambda>(t, out). Load_balance_rule m3 t out) = Inr c1"
           "pe_Constraint pol ''Capacity_constraint''
             (List.product (Time m3) (List.product (Dispatchable_Tech m3) (Outputs m3)))
             (\<lambda>(t, disp, out). Capacity_constraint_rule m3 t disp out) = Inr c2"
           "pe_Constraint pol ''Solar_input''
             (List.product (Time m3) (List.product (Solar_inputs m3) (Outputs m3)))
             (\<lambda>(t, sol, out). Solar_input_rule m3 t sol out) = Inr c3"
           "pe_Constraint pol ''Fixed_cost_constr'' (Inputs m3)
             (\<lambda>inp. Fixed_cost_constr_rule m3 inp) = Inr c4"
    by blast
  show "pe_Constraint pol ''Load_balance'' (List.product (Time m) (Outputs m))
           (\<lambda>(t, out). Load_balance_rule m t out) = Inr (Load_balance m)"
    and "pe_Constraint pol ''Capacity_constraint''
           (List.product (Time m) (List.product (Dispatchable_Tech m) (Outputs m)))
           (\<lambda>(t, disp, out). Capacity_constraint_rule m t disp out) =
         Inr (Capacity_constraint m)"
    and "pe_Constraint pol ''Solar_input''
           (List.product (Time m) (List.product (Solar_inputs m) (Outputs m)))
           (\<lambda>(t, sol, out). Solar_input_rule m t sol out) = Inr (Solar_input m)"
    and "pe_Constraint pol ''Fixed_cost_constr'' (Inputs m)
           (\<lambda>inp. Fixed_cost_constr_rule m inp) = Inr (Fixed_cost_constr m)"
    using c by (simp_all add: m)
qed

section \<open>Constraint families\<close>

lemma pe_Constraint_member:
  "pe_Constraint pol name ks rule = Inr cs \<Longrightarrow> (k, r) \<in> set cs \<Longrightarrow>
   k \<in> set ks \<and> rule k = Inr (Some r)"
proof (induction ks arbitrary: cs)
  case Nil
  then show ?case by simp
next
  case (Cons k' ks)
  then show ?case
    by (auto split: sum.splits option.splits none_policy.splits)
qed





section \<open>What the rules return\<close>

lemma mapE_Inr:
  "mapE f xs = Inr ys \<Longrightarrow> list_all2 (\<lambda>x y. f x = Inr y) xs ys"
proof (induction xs arbitrary: ys)
  case Nil
  then show ?case by auto
next
  case (Cons x xs)
  then show ?case
    by (auto split: sum.splits)
qed

lemma mapE_terms:
  assumes "mapE (\<lambda>i. bindE (g i) (\<lambda>c. Inr (h i c))) xs = Inr ys"
  shows "\<exists>c. (\<forall>i \<in> set xs. g i = Inr (c i)) \<and> ys = map (\<lambda>i. h i (c i)) xs"
proof -
  define c where "c i = (case g i of Inr v \<Rightarrow> v | Inl e \<Rightarrow> undefined)" for i
  from assms have "list_all2 (\<lambda>i y. bindE (g i) (\<lambda>c. Inr (h i c)) = Inr y) xs ys"
    by (rule mapE_Inr)
  then have "(\<forall>i \<in> set xs. g i = Inr (c i)) \<and> ys = map (\<lambda>i. h i (c i)) xs"
  proof (induction rule: list_all2_induct)
    case Nil
    then show ?case by simp
  next
    case (Cons i xs y ys)
    then show ?case by (auto simp: bindE_eq_Inr c_def)
  qed
  then show ?thesis by blast
qed



lemma expr_vars_foldl_EAdd:
  "expr_vars (foldl EAdd e es) = expr_vars e \<union> (\<Union>x \<in> set es. expr_vars x)"
  by (induction es arbitrary: e) auto

lemma expr_vars_py_sum: "expr_vars (py_sum es) = (\<Union>x \<in> set es. expr_vars x)"
  by (simp add: py_sum_def expr_vars_foldl_EAdd)

lemma Load_balance_rule_Inr:
  assumes "Load_balance_rule m t out = Inr x"
  shows "\<exists>c load.
           (\<forall>i \<in> set (Inputs m). param_get ''Cmatrix'' (Cmatrix m) (out, i) = Inr (c i)) \<and>
           param_get ''Loads'' (Loads m) (t, out) = Inr load \<and>
           x = Some (EqualityExpression
                 (ESub (EAdd (py_sum (map (\<lambda>i. EMul (EVar (P_var t i)) (ENum (c i)))
                                        (Inputs m)))
                             (EVar (Qout_var t out)))
                       (EVar (Qin_var t out)))
                 (EAdd (ENum load) (EVar (P_export_var t out))))"
proof -
  from assms obtain terms load where
    t: "mapE (\<lambda>inp. bindE (param_get ''Cmatrix'' (Cmatrix m) (out, inp))
                 (\<lambda>c. Inr (EMul (EVar (P_var t inp)) (ENum c)))) (Inputs m) = Inr terms"
    and l: "param_get ''Loads'' (Loads m) (t, out) = Inr load"
    and x: "x = Some (EqualityExpression
                 (ESub (EAdd (py_sum terms) (EVar (Qout_var t out))) (EVar (Qin_var t out)))
                 (EAdd (ENum load) (EVar (P_export_var t out))))"
    by (auto simp: Load_balance_rule_def bindE_eq_Inr)
  from mapE_terms [OF t] obtain c where
    "\<forall>i \<in> set (Inputs m). param_get ''Cmatrix'' (Cmatrix m) (out, i) = Inr (c i)"
    "terms = map (\<lambda>i. EMul (EVar (P_var t i)) (ENum (c i))) (Inputs m)"
    by blast
  with l x show ?thesis by blast
qed


lemma Fixed_cost_constr_rule_never_Some:
  "Fixed_cost_constr_rule m k \<noteq> Inr (Some r)"
  by (cases "param_get ''BigM'' (BigM m) ()") (simp_all add: Fixed_cost_constr_rule_def)


lemma rule_vars:
  "Load_balance_rule m t out = Inr (Some r) \<Longrightarrow> v \<in> relation_vars r \<Longrightarrow> rule_var v"
  "Capacity_constraint_rule m t k out = Inr (Some r) \<Longrightarrow> v \<in> relation_vars r \<Longrightarrow> rule_var v"
  "Solar_input_rule m t k out = Inr (Some r) \<Longrightarrow> v \<in> relation_vars r \<Longrightarrow> rule_var v"
proof -
  show "Load_balance_rule m t out = Inr (Some r) \<Longrightarrow> v \<in> relation_vars r \<Longrightarrow> rule_var v"
    by (drule Load_balance_rule_Inr) (auto simp: expr_vars_py_sum)
  show "Capacity_constraint_rule m t k out = Inr (Some r) \<Longrightarrow> v \<in> relation_vars r \<Longrightarrow>
        rule_var v"
    by (auto simp: Capacity_constraint_rule_def bindE_eq_Inr)
  show "Solar_input_rule m t k out = Inr (Some r) \<Longrightarrow> v \<in> relation_vars r \<Longrightarrow> rule_var v"
    by (auto simp: Solar_input_rule_def bindE_eq_Inr)
qed

lemma built_constraint_vars:
  assumes "createModel pol inp = Inr m" and "r \<in> set (constraint_bodies m)"
    and "v \<in> relation_vars r"
  shows "rule_var v"
proof -
  note c = createModel_constraints [OF assms(1)]
  from assms(2) consider
    k where "(k, r) \<in> set (Load_balance m)"
    | k where "(k, r) \<in> set (Capacity_constraint m)"
    | k where "(k, r) \<in> set (Solar_input m)"
    | k where "(k, r) \<in> set (Fixed_cost_constr m)"
    by (auto simp: constraint_bodies_def)
  then show ?thesis
  proof cases
    case 1
    from pe_Constraint_member [OF c(1) 1] assms(3) show ?thesis
      by (cases k) (auto dest: rule_vars)
  next
    case 2
    from pe_Constraint_member [OF c(2) 2] assms(3) show ?thesis
      by (cases k) (auto dest: rule_vars)
  next
    case 3
    from pe_Constraint_member [OF c(3) 3] assms(3) show ?thesis
      by (cases k) (auto dest: rule_vars)
  next
    case 4
    from pe_Constraint_member [OF c(4) 4] show ?thesis
      by (simp add: Fixed_cost_constr_rule_never_Some)
  qed
qed

section \<open>Feasible assignments\<close>

lemma eval_cong_vars: "(\<And>v. v \<in> expr_vars e \<Longrightarrow> a v = b v) \<Longrightarrow> eval a e = eval b e"
  by (induction e) simp_all

lemma holds_cong_vars:
  "(\<And>v. v \<in> relation_vars r \<Longrightarrow> a v = b v) \<Longrightarrow> holds a r = holds b r"
  by (cases r) (simp_all add: eval_cong_vars [of _ a b])

lemma feasibleD_constraint:
  "feasible a m \<Longrightarrow> r \<in> set (constraint_bodies m) \<Longrightarrow> holds a r"
  by (simp add: feasible_def list_all_iff)

lemma feasibleD_variable:
  "feasible a m \<Longrightarrow> (v, d) \<in> set (variables m) \<Longrightarrow> in_domain d (a v)"
  by (auto simp: feasible_def list_all_iff)

lemma feasible_transfer:
  assumes b: "createModel pol inp = Inr m" and f: "feasible a m"
    and same: "\<And>v. rule_var v \<Longrightarrow> b v = a v"
    and dom: "\<And>v d. (v, d) \<in> set (variables m) \<Longrightarrow> in_domain d (b v)"
  shows "feasible b m"
proof -
  have "holds b r" if r: "r \<in> set (constraint_bodies m)" for r
  proof -
    have "holds b r = holds a r"
      by (rule holds_cong_vars) (auto dest: built_constraint_vars [OF b r] intro: same)
    with feasibleD_constraint [OF f r] show ?thesis by simp
  qed
  with dom show ?thesis by (auto simp: feasible_def list_all_iff)
qed

lemma builds_hub_grid_pv: "\<exists>m. createModel NoneSkips hub_grid_pv = Inr m"
  by (simp add: createModel_unfold hub_grid_pv_def hub_no_carrier_def run_simps)



lemma declared_domain_objective:
  "(v, d) \<in> set (declared_variables m) \<Longrightarrow> v \<in> set objective_components \<Longrightarrow>
   d = NonNegativeReals"
  by (auto simp: declared_variables_def objective_components_def)

lemma objective_components_declared:
  "v \<in> set objective_components \<Longrightarrow> (v, NonNegativeReals) \<in> set (declared_variables m)"
  by (auto simp: declared_variables_def objective_components_def)


lemma objective_components_not_rule_var:
  "v \<in> set objective_components \<Longrightarrow> \<not> rule_var v"
  by (auto simp: objective_components_def)




section \<open>Data that no statement checks\<close>

lemma without_unchecked_update [simp]:
  "without_unchecked (m\<lparr>Time := x_Time\<rparr>) = (without_unchecked m)\<lparr>Time := x_Time\<rparr>"
  "without_unchecked (m\<lparr>First_hour := x_First_hour\<rparr>) = (without_unchecked m)\<lparr>First_hour := x_First_hour\<rparr>"
  "without_unchecked (m\<lparr>Inputs := x_Inputs\<rparr>) = (without_unchecked m)\<lparr>Inputs := x_Inputs\<rparr>"
  "without_unchecked (m\<lparr>Solar_inputs := x_Solar_inputs\<rparr>) = (without_unchecked m)\<lparr>Solar_inputs := x_Solar_inputs\<rparr>"
  "without_unchecked (m\<lparr>Inputs_wo_grid := x_Inputs_wo_grid\<rparr>) = without_unchecked m"
  "without_unchecked (m\<lparr>Dispatchable_Tech := x_Dispatchable_Tech\<rparr>) = (without_unchecked m)\<lparr>Dispatchable_Tech := x_Dispatchable_Tech\<rparr>"
  "without_unchecked (m\<lparr>CHP_Tech := x_CHP_Tech\<rparr>) = (without_unchecked m)\<lparr>CHP_Tech := x_CHP_Tech\<rparr>"
  "without_unchecked (m\<lparr>Outputs := x_Outputs\<rparr>) = (without_unchecked m)\<lparr>Outputs := x_Outputs\<rparr>"
  "without_unchecked (m\<lparr>Loads := x_Loads\<rparr>) = (without_unchecked m)\<lparr>Loads := x_Loads\<rparr>"
  "without_unchecked (m\<lparr>Number_of_days := x_Number_of_days\<rparr>) = (without_unchecked m)\<lparr>Number_of_days := x_Number_of_days\<rparr>"
  "without_unchecked (m\<lparr>Cmatrix := x_Cmatrix\<rparr>) = (without_unchecked m)\<lparr>Cmatrix := x_Cmatrix\<rparr>"
  "without_unchecked (m\<lparr>Storage_max_charge := x_Storage_max_charge\<rparr>) = (without_unchecked m)\<lparr>Storage_max_charge := x_Storage_max_charge\<rparr>"
  "without_unchecked (m\<lparr>Storage_max_discharge := x_Storage_max_discharge\<rparr>) = (without_unchecked m)\<lparr>Storage_max_discharge := x_Storage_max_discharge\<rparr>"
  "without_unchecked (m\<lparr>Storage_standing_losses := x_Storage_standing_losses\<rparr>) = without_unchecked m"
  "without_unchecked (m\<lparr>Storage_charging_eff := x_Storage_charging_eff\<rparr>) = without_unchecked m"
  "without_unchecked (m\<lparr>Storage_discharging_eff := x_Storage_discharging_eff\<rparr>) = without_unchecked m"
  "without_unchecked (m\<lparr>Storage_max_cap := x_Storage_max_cap\<rparr>) = (without_unchecked m)\<lparr>Storage_max_cap := x_Storage_max_cap\<rparr>"
  "without_unchecked (m\<lparr>Lifetime_tech := x_Lifetime_tech\<rparr>) = (without_unchecked m)\<lparr>Lifetime_tech := x_Lifetime_tech\<rparr>"
  "without_unchecked (m\<lparr>Lifetime_stor := x_Lifetime_stor\<rparr>) = (without_unchecked m)\<lparr>Lifetime_stor := x_Lifetime_stor\<rparr>"
  "without_unchecked (m\<lparr>Network_efficiency := x_Network_efficiency\<rparr>) = without_unchecked m"
  "without_unchecked (m\<lparr>Network_length := x_Network_length\<rparr>) = (without_unchecked m)\<lparr>Network_length := x_Network_length\<rparr>"
  "without_unchecked (m\<lparr>Network_lifetime := x_Network_lifetime\<rparr>) = (without_unchecked m)\<lparr>Network_lifetime := x_Network_lifetime\<rparr>"
  "without_unchecked (m\<lparr>Operating_costs := x_Operating_costs\<rparr>) = (without_unchecked m)\<lparr>Operating_costs := x_Operating_costs\<rparr>"
  "without_unchecked (m\<lparr>Linear_inv_costs := x_Linear_inv_costs\<rparr>) = (without_unchecked m)\<lparr>Linear_inv_costs := x_Linear_inv_costs\<rparr>"
  "without_unchecked (m\<lparr>Fixed_inv_costs := x_Fixed_inv_costs\<rparr>) = (without_unchecked m)\<lparr>Fixed_inv_costs := x_Fixed_inv_costs\<rparr>"
  "without_unchecked (m\<lparr>Linear_stor_costs := x_Linear_stor_costs\<rparr>) = (without_unchecked m)\<lparr>Linear_stor_costs := x_Linear_stor_costs\<rparr>"
  "without_unchecked (m\<lparr>Fixed_stor_costs := x_Fixed_stor_costs\<rparr>) = (without_unchecked m)\<lparr>Fixed_stor_costs := x_Fixed_stor_costs\<rparr>"
  "without_unchecked (m\<lparr>Net_inv_cost_per_m := x_Net_inv_cost_per_m\<rparr>) = (without_unchecked m)\<lparr>Net_inv_cost_per_m := x_Net_inv_cost_per_m\<rparr>"
  "without_unchecked (m\<lparr>FiT := x_FiT\<rparr>) = (without_unchecked m)\<lparr>FiT := x_FiT\<rparr>"
  "without_unchecked (m\<lparr>Interest_rate := x_Interest_rate\<rparr>) = without_unchecked m"
  "without_unchecked (m\<lparr>CRF_tech := x_CRF_tech\<rparr>) = (without_unchecked m)\<lparr>CRF_tech := x_CRF_tech\<rparr>"
  "without_unchecked (m\<lparr>CRF_stor := x_CRF_stor\<rparr>) = (without_unchecked m)\<lparr>CRF_stor := x_CRF_stor\<rparr>"
  "without_unchecked (m\<lparr>CRF_network := x_CRF_network\<rparr>) = (without_unchecked m)\<lparr>CRF_network := x_CRF_network\<rparr>"
  "without_unchecked (m\<lparr>Carbon_factors := x_Carbon_factors\<rparr>) = (without_unchecked m)\<lparr>Carbon_factors := x_Carbon_factors\<rparr>"
  "without_unchecked (m\<lparr>Roof_area := x_Roof_area\<rparr>) = (without_unchecked m)\<lparr>Roof_area := x_Roof_area\<rparr>"
  "without_unchecked (m\<lparr>P_solar := x_P_solar\<rparr>) = (without_unchecked m)\<lparr>P_solar := x_P_solar\<rparr>"
  "without_unchecked (m\<lparr>BigM := x_BigM\<rparr>) = (without_unchecked m)\<lparr>BigM := x_BigM\<rparr>"
  "without_unchecked (m\<lparr>variables := x_variables\<rparr>) = (without_unchecked m)\<lparr>variables := x_variables\<rparr>"
  "without_unchecked (m\<lparr>Load_balance := x_Load_balance\<rparr>) = (without_unchecked m)\<lparr>Load_balance := x_Load_balance\<rparr>"
  "without_unchecked (m\<lparr>Capacity_constraint := x_Capacity_constraint\<rparr>) = (without_unchecked m)\<lparr>Capacity_constraint := x_Capacity_constraint\<rparr>"
  "without_unchecked (m\<lparr>Solar_input := x_Solar_input\<rparr>) = (without_unchecked m)\<lparr>Solar_input := x_Solar_input\<rparr>"
  "without_unchecked (m\<lparr>Fixed_cost_constr := x_Fixed_cost_constr\<rparr>) = (without_unchecked m)\<lparr>Fixed_cost_constr := x_Fixed_cost_constr\<rparr>"
  by (simp_all add: without_unchecked_def)

lemma agree_but_uncheckedD:
  assumes "agree_but_unchecked m m'"
  shows "without_unchecked m = without_unchecked m' \<and> Time m = Time m' \<and>
         Inputs m = Inputs m' \<and>
         Solar_inputs m = Solar_inputs m' \<and>
         Dispatchable_Tech m = Dispatchable_Tech m' \<and>
         Outputs m = Outputs m' \<and>
         Cmatrix m = Cmatrix m' \<and>
         Loads m = Loads m' \<and>
         P_solar m = P_solar m' \<and>
         BigM m = BigM m' \<and>
         variables m = variables m'"
proof -
  from assms have e: "without_unchecked m = without_unchecked m'"
    by (simp add: agree_but_unchecked_def)
  from e have "Time (without_unchecked m) = Time (without_unchecked m')" by simp
  then have f0: "Time m = Time m'" by (simp add: without_unchecked_def)
  from e have "Inputs (without_unchecked m) = Inputs (without_unchecked m')" by simp
  then have f1: "Inputs m = Inputs m'" by (simp add: without_unchecked_def)
  from e have "Solar_inputs (without_unchecked m) = Solar_inputs (without_unchecked m')" by simp
  then have f2: "Solar_inputs m = Solar_inputs m'" by (simp add: without_unchecked_def)
  from e have "Dispatchable_Tech (without_unchecked m) = Dispatchable_Tech (without_unchecked m')" by simp
  then have f3: "Dispatchable_Tech m = Dispatchable_Tech m'" by (simp add: without_unchecked_def)
  from e have "Outputs (without_unchecked m) = Outputs (without_unchecked m')" by simp
  then have f4: "Outputs m = Outputs m'" by (simp add: without_unchecked_def)
  from e have "Cmatrix (without_unchecked m) = Cmatrix (without_unchecked m')" by simp
  then have f5: "Cmatrix m = Cmatrix m'" by (simp add: without_unchecked_def)
  from e have "Loads (without_unchecked m) = Loads (without_unchecked m')" by simp
  then have f6: "Loads m = Loads m'" by (simp add: without_unchecked_def)
  from e have "P_solar (without_unchecked m) = P_solar (without_unchecked m')" by simp
  then have f7: "P_solar m = P_solar m'" by (simp add: without_unchecked_def)
  from e have "BigM (without_unchecked m) = BigM (without_unchecked m')" by simp
  then have f8: "BigM m = BigM m'" by (simp add: without_unchecked_def)
  from e have "variables (without_unchecked m) = variables (without_unchecked m')" by simp
  then have f9: "variables m = variables m'" by (simp add: without_unchecked_def)
  from e f0 f1 f2 f3 f4 f5 f6 f7 f8 f9 show ?thesis by simp
qed

lemma rel_sum_bindE_same:
  "(\<And>x. rel_sum (=) R (k x) (k' x)) \<Longrightarrow> rel_sum (=) R (bindE r k) (bindE r k')"
  by (cases r) simp_all

lemma statements_rel:
  assumes "list_all2 (\<lambda>f g. \<forall>m m'. R m m' \<longrightarrow> rel_sum (=) R (f m) (g m')) fs gs"
    and "R m m'"
  shows "rel_sum (=) R (statements fs m) (statements gs m')"
  using assms
proof (induction arbitrary: m m' rule: list_all2_induct)
  case Nil
  then show ?case by simp
next
  case (Cons f fs g gs)
  from Cons.hyps(1) Cons.prems have r: "rel_sum (=) R (f m) (g m')" by blast
  show ?case
  proof (cases "f m")
    case (Inl e)
    with r show ?thesis by (cases "g m'") simp_all
  next
    case (Inr m1)
    with r obtain m1' where "g m' = Inr m1'" and "R m1 m1'"
      by (cases "g m'") simp_all
    with Inr Cons.IH [of m1 m1'] show ?thesis by simp
  qed
qed

lemma rule_agree:
  assumes "Inputs m = Inputs m'" and "Cmatrix m = Cmatrix m'" and "Loads m = Loads m'"
    and "P_solar m = P_solar m'" and "BigM m = BigM m'"
  shows "Load_balance_rule m = Load_balance_rule m'"
    and "Capacity_constraint_rule m = Capacity_constraint_rule m'"
    and "Solar_input_rule m = Solar_input_rule m'"
    and "Fixed_cost_constr_rule m = Fixed_cost_constr_rule m'"
  using assms by (simp_all add: rule_defs fun_eq_iff)

lemma agree_but_uncheckedI:
  "without_unchecked m = without_unchecked m' \<Longrightarrow> agree_but_unchecked m m'"
  by (simp add: agree_but_unchecked_def)

lemma sets_agree:
  assumes "inp' = inp\<lparr>inp_Inputs_wo_grid := W, inp_Storage_standing_losses := sl,
                     inp_Storage_charging_eff := ce, inp_Storage_discharging_eff := de,
                     inp_Network_efficiency := ne, inp_Interest_rate := r\<rparr>"
  shows "list_all2 (\<lambda>f g. \<forall>m m'. agree_but_unchecked m m' \<longrightarrow>
                      rel_sum (=) agree_but_unchecked (f m) (g m'))
           (model_sets inp) (model_sets inp')"
  unfolding model_sets_def assms
  by (auto dest!: agree_but_uncheckedD intro!: rel_sum_bindE_same agree_but_uncheckedI
      simp: pe_Set_def)

lemma parameters_agree:
  assumes "inp' = inp\<lparr>inp_Inputs_wo_grid := W, inp_Storage_standing_losses := sl,
                     inp_Storage_charging_eff := ce, inp_Storage_discharging_eff := de,
                     inp_Network_efficiency := ne, inp_Interest_rate := r\<rparr>"
    and "fst ` set sl = fst ` set (inp_Storage_standing_losses inp)"
    and "fst ` set ce = fst ` set (inp_Storage_charging_eff inp)"
    and "fst ` set de = fst ` set (inp_Storage_discharging_eff inp)"
    and "fst ` set ne = fst ` set (inp_Network_efficiency inp)"
  shows "list_all2 (\<lambda>f g. \<forall>m m'. agree_but_unchecked m m' \<longrightarrow>
                      rel_sum (=) agree_but_unchecked (f m) (g m'))
           (model_parameters inp) (model_parameters inp')"
  unfolding model_parameters_def load_parameters_def technical_parameters_def
    cost_parameters_def environmental_parameters_def misc_parameters_def assms(1)
  using assms(2-5)
  by (auto dest!: agree_but_uncheckedD intro!: rel_sum_bindE_same agree_but_uncheckedI
      simp: pe_Param_def pe_Param_scalar_def list_all_iff)

lemma variables_agree:
  "list_all2 (\<lambda>f g. \<forall>m m'. agree_but_unchecked m m' \<longrightarrow>
                      rel_sum (=) agree_but_unchecked (f m) (g m'))
     model_variables model_variables"
  unfolding model_variables_def generation_variables_def storage_variables_def
    objective_variables_def
  by (auto dest!: agree_but_uncheckedD intro!: agree_but_uncheckedI simp: pe_Var_def)

lemma agree_but_unchecked_rules:
  assumes "agree_but_unchecked m m'"
  shows "without_unchecked m = without_unchecked m' \<and>
         Time m = Time m' \<and> Inputs m = Inputs m' \<and> Solar_inputs m = Solar_inputs m' \<and>
         Dispatchable_Tech m = Dispatchable_Tech m' \<and> Outputs m = Outputs m' \<and>
         Load_balance_rule m = Load_balance_rule m' \<and>
         Capacity_constraint_rule m = Capacity_constraint_rule m' \<and>
         Solar_input_rule m = Solar_input_rule m' \<and>
         Fixed_cost_constr_rule m = Fixed_cost_constr_rule m'"
proof -
  from agree_but_uncheckedD [OF assms] have d:
    "without_unchecked m = without_unchecked m'" "Time m = Time m'" "Inputs m = Inputs m'"
    "Solar_inputs m = Solar_inputs m'" "Dispatchable_Tech m = Dispatchable_Tech m'"
    "Outputs m = Outputs m'" "Cmatrix m = Cmatrix m'" "Loads m = Loads m'"
    "P_solar m = P_solar m'" "BigM m = BigM m'"
    by simp_all
  from d(1-6) rule_agree [OF d(3) d(7-10)] show ?thesis by simp
qed

lemma constraints_agree:
  "list_all2 (\<lambda>f g. \<forall>m m'. agree_but_unchecked m m' \<longrightarrow>
                      rel_sum (=) agree_but_unchecked (f m) (g m'))
     (model_constraints pol) (model_constraints pol)"
  unfolding model_constraints_def
  by (auto dest!: agree_but_unchecked_rules
      intro!: rel_sum_bindE_same agree_but_uncheckedI)

lemma createModel_agree:
  assumes "inp' = inp\<lparr>inp_Inputs_wo_grid := W, inp_Storage_standing_losses := sl,
                     inp_Storage_charging_eff := ce, inp_Storage_discharging_eff := de,
                     inp_Network_efficiency := ne, inp_Interest_rate := r\<rparr>"
    and "fst ` set sl = fst ` set (inp_Storage_standing_losses inp)"
    and "fst ` set ce = fst ` set (inp_Storage_charging_eff inp)"
    and "fst ` set de = fst ` set (inp_Storage_discharging_eff inp)"
    and "fst ` set ne = fst ` set (inp_Network_efficiency inp)"
  shows "rel_sum (=) agree_but_unchecked (createModel pol inp) (createModel pol inp')"
  unfolding createModel_def
proof (rule statements_rel)
  show "agree_but_unchecked ConcreteModel ConcreteModel"
    by (simp add: agree_but_unchecked_def)
  show "list_all2 (\<lambda>f g. \<forall>m m'. agree_but_unchecked m m' \<longrightarrow>
                      rel_sum (=) agree_but_unchecked (f m) (g m'))
          (model_sets inp @ model_parameters inp @ model_variables @ model_constraints pol)
          (model_sets inp' @ model_parameters inp' @ model_variables @ model_constraints pol)"
    by (intro list_all2_appendI sets_agree [OF assms(1)] parameters_agree [OF assms]
        variables_agree constraints_agree)
qed

lemma model_sets_failure:
  assumes "\<not> (set (inp_First_hour inp) \<subseteq> set (inp_Time inp) \<and>
              set (inp_Solar_inputs inp) \<subseteq> set (inp_Inputs inp) \<and>
              set (inp_Dispatchable_Tech inp) \<subseteq> set (inp_Inputs inp) \<and>
              set (inp_CHP_Tech inp) \<subseteq> set (inp_Inputs inp))"
  shows "\<exists>name \<in> set [''First_hour'', ''Solar_inputs'', ''Dispatchable_Tech'', ''CHP_Tech''].
           statements (model_sets inp) m0 = Inl (ValueError name)"
  using assms
  by (simp add: model_sets_def pe_Set_def list_all_iff) blast

lemma createModel_sets_failure:
  assumes "\<not> (set (inp_First_hour inp) \<subseteq> set (inp_Time inp) \<and>
              set (inp_Solar_inputs inp) \<subseteq> set (inp_Inputs inp) \<and>
              set (inp_Dispatchable_Tech inp) \<subseteq> set (inp_Inputs inp) \<and>
              set (inp_CHP_Tech inp) \<subseteq> set (inp_Inputs inp))"
  shows "\<exists>name \<in> set [''First_hour'', ''Solar_inputs'', ''Dispatchable_Tech'', ''CHP_Tech''].
           createModel pol inp = Inl (ValueError name)"
proof -
  from model_sets_failure [OF assms, of ConcreteModel] obtain name where
    "name \<in> set [''First_hour'', ''Solar_inputs'', ''Dispatchable_Tech'', ''CHP_Tech'']"
    and "statements (model_sets inp) ConcreteModel = Inl (ValueError name)"
    by blast
  then show ?thesis
    unfolding createModel_def statements_append by (intro bexI [of _ name]) simp_all
qed

lemma parameters_phase_unchecked:
  assumes "statements (model_parameters inp) m1 = Inr m2"
  shows "Storage_standing_losses m2 =
           \<lparr>p_index = Outputs m1, p_values = inp_Storage_standing_losses inp,
              p_default = None\<rparr>"
    and "Storage_charging_eff m2 =
           \<lparr>p_index = Outputs m1, p_values = inp_Storage_charging_eff inp,
              p_default = None\<rparr>"
    and "Storage_discharging_eff m2 =
           \<lparr>p_index = Outputs m1, p_values = inp_Storage_discharging_eff inp,
              p_default = None\<rparr>"
    and "Network_efficiency m2 =
           \<lparr>p_index = Outputs m1, p_values = inp_Network_efficiency inp,
              p_default = None\<rparr>"
    and "Interest_rate m2 =
           \<lparr>p_index = [()], p_values = [((), inp_Interest_rate inp)], p_default = None\<rparr>"
  using assms
  unfolding model_parameters_def load_parameters_def technical_parameters_def
    cost_parameters_def environmental_parameters_def misc_parameters_def
  by (simp_all add: built_simps del: statements.simps(2)) auto

lemma createModel_unchecked_params:
  assumes "createModel pol inp = Inr m"
  shows "Storage_standing_losses m =
           \<lparr>p_index = Outputs m, p_values = inp_Storage_standing_losses inp,
              p_default = None\<rparr>"
    and "Storage_charging_eff m =
           \<lparr>p_index = Outputs m, p_values = inp_Storage_charging_eff inp,
              p_default = None\<rparr>"
    and "Storage_discharging_eff m =
           \<lparr>p_index = Outputs m, p_values = inp_Storage_discharging_eff inp,
              p_default = None\<rparr>"
    and "Network_efficiency m =
           \<lparr>p_index = Outputs m, p_values = inp_Network_efficiency inp,
              p_default = None\<rparr>"
    and "Interest_rate m =
           \<lparr>p_index = [()], p_values = [((), inp_Interest_rate inp)], p_default = None\<rparr>"
proof -
  from assms obtain m1 m2 m3 where
    p2: "statements (model_parameters inp) m1 = Inr m2" and
    p3: "statements model_variables m2 = Inr m3" and
    p4: "statements (model_constraints pol) m3 = Inr m"
    by (auto simp: createModel_phases)
  note q = parameters_phase [OF p2] and u = parameters_phase_unchecked [OF p2]
    and v = variables_phase [OF p3]
  from constraints_phase [OF p4] obtain c1 c2 c3 c4 where
    m: "m = m3\<lparr>Load_balance := c1, Capacity_constraint := c2, Solar_input := c3,
                  Fixed_cost_constr := c4\<rparr>" by blast
  show "Storage_standing_losses m =
           \<lparr>p_index = Outputs m, p_values = inp_Storage_standing_losses inp,
              p_default = None\<rparr>"
    and "Storage_charging_eff m =
           \<lparr>p_index = Outputs m, p_values = inp_Storage_charging_eff inp,
              p_default = None\<rparr>"
    and "Storage_discharging_eff m =
           \<lparr>p_index = Outputs m, p_values = inp_Storage_discharging_eff inp,
              p_default = None\<rparr>"
    and "Network_efficiency m =
           \<lparr>p_index = Outputs m, p_values = inp_Network_efficiency inp,
              p_default = None\<rparr>"
    and "Interest_rate m =
           \<lparr>p_index = [()], p_values = [((), inp_Interest_rate inp)], p_default = None\<rparr>"
    by (simp_all add: m v q u)
qed

lemma restore_unchecked:
  "m = (without_unchecked m)
         \<lparr>Inputs_wo_grid := Inputs_wo_grid m,
          Storage_standing_losses := Storage_standing_losses m,
          Storage_charging_eff := Storage_charging_eff m,
          Storage_discharging_eff := Storage_discharging_eff m,
          Network_efficiency := Network_efficiency m,
          Interest_rate := Interest_rate m\<rparr>"
  by (simp add: without_unchecked_def)

lemma createModel_Inputs_wo_grid:
  "createModel pol (inp\<lparr>inp_Inputs_wo_grid := W\<rparr>) =
   map_sum id (\<lambda>m. m\<lparr>Inputs_wo_grid := ordered_members W\<rparr>) (createModel pol inp)"
proof -
  let ?inp' = "inp\<lparr>inp_Inputs_wo_grid := W\<rparr>"
  have e: "?inp' = inp\<lparr>inp_Inputs_wo_grid := W,
                     inp_Storage_standing_losses := inp_Storage_standing_losses inp,
                     inp_Storage_charging_eff := inp_Storage_charging_eff inp,
                     inp_Storage_discharging_eff := inp_Storage_discharging_eff inp,
                     inp_Network_efficiency := inp_Network_efficiency inp,
                     inp_Interest_rate := inp_Interest_rate inp\<rparr>"
    by simp
  have r: "rel_sum (=) agree_but_unchecked (createModel pol inp) (createModel pol ?inp')"
    by (rule createModel_agree [OF e]) simp_all
  show ?thesis
  proof (cases "createModel pol inp")
    case (Inl err)
    with r show ?thesis by (cases "createModel pol ?inp'") simp_all
  next
    case (Inr m)
    with r obtain m' where m': "createModel pol ?inp' = Inr m'"
      and a: "agree_but_unchecked m m'"
      by (cases "createModel pol ?inp'") simp_all
    from a have w: "without_unchecked m' = without_unchecked m"
      by (simp add: agree_but_unchecked_def)
    note s = createModel_sets [OF Inr] and s' = createModel_sets [OF m']
    note u = createModel_unchecked_params [OF Inr]
      and u' = createModel_unchecked_params [OF m']
    have o: "Outputs m' = Outputs m" by (simp add: s s')
    have "m' = (without_unchecked m)
         \<lparr>Inputs_wo_grid := Inputs_wo_grid m',
          Storage_standing_losses := Storage_standing_losses m',
          Storage_charging_eff := Storage_charging_eff m',
          Storage_discharging_eff := Storage_discharging_eff m',
          Network_efficiency := Network_efficiency m',
          Interest_rate := Interest_rate m'\<rparr>"
      by (subst restore_unchecked [of m']) (simp only: w)
    also have "\<dots> = (without_unchecked m)
         \<lparr>Inputs_wo_grid := ordered_members W,
          Storage_standing_losses := Storage_standing_losses m,
          Storage_charging_eff := Storage_charging_eff m,
          Storage_discharging_eff := Storage_discharging_eff m,
          Network_efficiency := Network_efficiency m,
          Interest_rate := Interest_rate m\<rparr>"
      by (simp add: s s' u u')
    also have "\<dots> = m\<lparr>Inputs_wo_grid := ordered_members W\<rparr>"
      by (simp add: without_unchecked_def)
    finally show ?thesis by (simp add: Inr m')
  qed
qed

section \<open>The claims\<close>

text \<open>
  C1. The installation-linking rule should return \<^verbatim>\<open>Capacity[inp] <= BigM * y[inp]\<close> for
  every carrier, so that an uninstalled technology has no capacity. The rule of the source
  has no \<^verbatim>\<open>return\<close>. For the hub with a grid connection and a panel, Pyomo rejects the
  rule's \<^verbatim>\<open>None\<close> and no model is built; in the reading where \<^verbatim>\<open>None\<close> is passed over,
  the family \<^verbatim>\<open>Fixed_cost_constr\<close> of the built model is empty and an assignment with
  \<^verbatim>\<open>y[grid] = 0\<close> and \<^verbatim>\<open>Capacity[grid] = 10\<close> is feasible.
\<close>

theorem Fixed_cost_constr_not_emitted:
  "createModel NoneRaises hub_grid_pv = Inl (ValueError ''Fixed_cost_constr'') \<and>
   map_sum id Fixed_cost_constr (createModel NoneSkips hub_grid_pv) = Inr [] \<and>
   feasible_built NoneSkips hub_grid_pv uninstalled_grid_assignment \<and>
   uninstalled_grid_assignment (y_var ''grid'') = 0 \<and>
   uninstalled_grid_assignment (Capacity_var ''grid'') = 10"
proof -
  have "createModel NoneRaises hub_grid_pv = Inl (ValueError ''Fixed_cost_constr'')"
    by (simp add: createModel_unfold hub_grid_pv_def hub_no_carrier_def run_simps)
  moreover have "map_sum id Fixed_cost_constr (createModel NoneSkips hub_grid_pv) = Inr []"
    by (simp add: createModel_unfold hub_grid_pv_def hub_no_carrier_def run_simps)
  moreover have "feasible_built NoneSkips hub_grid_pv uninstalled_grid_assignment"
    by (simp add: feasible_built_def feasible_def constraint_bodies_def createModel_unfold
        hub_grid_pv_def hub_no_carrier_def run_simps)
  ultimately show ?thesis by simp
qed

text \<open>
  C6. The default of \<^verbatim>\<open>BigM\<close> should be ten to the power five. The source writes
  \<^verbatim>\<open>10^5\<close>, the exclusive or of 10 and 5: the default is 15, and 15 is what a built model
  gives when \<^verbatim>\<open>m.BigM\<close> is read.
\<close>

theorem BigM_default_is_15:
  "BigM_default = 15 \<and> BigM_default \<noteq> 10 ^ 5 \<and>
   read_BigM NoneRaises hub_no_carrier = Inr 15 \<and>
   read_BigM NoneSkips hub_grid_pv = Inr 15"
proof -
  have "read_BigM NoneRaises hub_no_carrier = Inr 15"
    by (simp add: read_BigM_def createModel_unfold hub_no_carrier_def run_simps)
  moreover have "read_BigM NoneSkips hub_grid_pv = Inr 15"
    by (simp add: read_BigM_def createModel_unfold hub_grid_pv_def hub_no_carrier_def
        run_simps)
  ultimately show ?thesis by (simp add: BigM_default_def)
qed



text \<open>
  C3. As amended: the five objective function components are declared as non-negative
  variables, so each is at least 0 in every feasible assignment; no constraint of a built
  model mentions any of them, so they are free: changing their values to any non-negative
  numbers keeps an assignment feasible. No constraint equates \<^verbatim>\<open>Total_cost\<close> to
  \<^verbatim>\<open>investment_cost + Operating_cost - Income_via_exports\<close>.
\<close>

theorem objective_components_free:
  assumes "createModel pol inp = Inr m"
  shows "(\<forall>v \<in> set objective_components. (v, NonNegativeReals) \<in> set (variables m)) \<and>
         (\<forall>a. feasible a m \<longrightarrow> (\<forall>v \<in> set objective_components. 0 \<le> a v)) \<and>
         (\<forall>r \<in> set (constraint_bodies m). relation_vars r \<inter> set objective_components = {}) \<and>
         (\<forall>a b. feasible a m \<and>
                (\<forall>v. v \<notin> set objective_components \<longrightarrow> b v = a v) \<and>
                (\<forall>v \<in> set objective_components. 0 \<le> b v) \<longrightarrow>
                feasible b m)"
proof -
  note v = createModel_variables [OF assms]
  have 1: "\<forall>v \<in> set objective_components. (v, NonNegativeReals) \<in> set (variables m)"
    by (simp add: v objective_components_declared)
  have 2: "\<forall>a. feasible a m \<longrightarrow> (\<forall>v \<in> set objective_components. 0 \<le> a v)"
  proof (intro allI impI ballI)
    fix a v
    assume "feasible a m" and "v \<in> set objective_components"
    with 1 have "in_domain NonNegativeReals (a v)"
      by (blast dest: feasibleD_variable)
    then show "0 \<le> a v" by simp
  qed
  have 3: "\<forall>r \<in> set (constraint_bodies m). relation_vars r \<inter> set objective_components = {}"
    using built_constraint_vars [OF assms] objective_components_not_rule_var by blast
  have 4: "feasible b m"
    if f: "feasible a m"
      and same: "\<forall>v. v \<notin> set objective_components \<longrightarrow> b v = a v"
      and nn: "\<forall>v \<in> set objective_components. 0 \<le> b v" for a b
  proof (rule feasible_transfer [OF assms f])
    fix v
    assume "rule_var v"
    with same objective_components_not_rule_var show "b v = a v" by blast
  next
    fix v d
    assume d: "(v, d) \<in> set (variables m)"
    show "in_domain d (b v)"
    proof (cases "v \<in> set objective_components")
      case True
      with d have "d = NonNegativeReals"
        by (simp add: v declared_domain_objective)
      with nn True show ?thesis by simp
    next
      case False
      with same have "b v = a v" by simp
      with feasibleD_variable [OF f d] show ?thesis by simp
    qed
  qed
  from 1 2 3 4 show ?thesis by blast
qed

lemma feasible_free_cost_assignment:
  "feasible_built pol hub_no_carrier free_cost_assignment"
  by (simp add: feasible_built_def feasible_def constraint_bodies_def createModel_unfold
      hub_no_carrier_def run_simps)

theorem objective_components_free_witness:
  "\<exists>m. createModel NoneRaises hub_no_carrier = Inr m \<and>
       feasible free_cost_assignment m \<and>
       feasible (free_cost_assignment(Total_cost_var := 0, Total_carbon_var := 12)) m \<and>
       (Total_cost_var, NonNegativeReals) \<in> set (variables m)"
proof -
  obtain m where m: "createModel NoneRaises hub_no_carrier = Inr m"
    using builds_hub_no_carrier by blast
  have f: "feasible free_cost_assignment m"
    using feasible_free_cost_assignment [of NoneRaises] by (simp add: feasible_built_def m)
  note t = objective_components_free [OF m]
  from t have d: "(Total_cost_var, NonNegativeReals) \<in> set (variables m)"
    by (simp add: objective_components_def)
  from t have "feasible free_cost_assignment m \<and>
      (\<forall>v. v \<notin> set objective_components \<longrightarrow>
           (free_cost_assignment(Total_cost_var := 0, Total_carbon_var := 12)) v =
           free_cost_assignment v) \<and>
      (\<forall>v \<in> set objective_components.
           0 \<le> (free_cost_assignment(Total_cost_var := 0, Total_carbon_var := 12)) v) \<longrightarrow>
      feasible (free_cost_assignment(Total_cost_var := 0, Total_carbon_var := 12)) m"
    by blast
  with f have "feasible (free_cost_assignment(Total_cost_var := 0, Total_carbon_var := 12)) m"
    by (simp add: objective_components_def)
  with m f d show ?thesis by blast
qed

theorem Total_cost_not_defined_counterexample:
  "feasible_built NoneRaises hub_no_carrier free_cost_assignment \<and>
   feasible_built NoneSkips hub_no_carrier free_cost_assignment \<and>
   free_cost_assignment Total_cost_var = 7 \<and>
   free_cost_assignment investment_cost_var + free_cost_assignment Operating_cost_var -
     free_cost_assignment Income_via_exports_var = 0"
  by (simp add: feasible_free_cost_assignment)





text \<open>
  C5. As amended: the program computes no capital recovery factor. \<^verbatim>\<open>CRF_tech\<close> and
  \<^verbatim>\<open>CRF_stor\<close> (both over \<^verbatim>\<open>Inputs\<close>) and \<^verbatim>\<open>CRF_network\<close> are declared without a
  value, a default or a rule: in every built model, whatever the interest rate and the
  lifetimes, they hold no value and reading any of them gives no number.
\<close>

theorem CRF_parameters_hold_no_value:
  assumes "createModel pol inp = Inr m"
  shows "CRF_tech m = \<lparr>p_index = Inputs m, p_values = [], p_default = None\<rparr> \<and>
         CRF_stor m = \<lparr>p_index = Inputs m, p_values = [], p_default = None\<rparr> \<and>
         CRF_network m = \<lparr>p_index = [()], p_values = [], p_default = None\<rparr> \<and>
         (\<forall>k x. param_get ''CRF_tech'' (CRF_tech m) k \<noteq> Inr x) \<and>
         (\<forall>k x. param_get ''CRF_stor'' (CRF_stor m) k \<noteq> Inr x) \<and>
         (\<forall>x. param_get ''CRF_network'' (CRF_network m) () \<noteq> Inr x)"
  using createModel_params(5,6,7) [OF assms]
  by (simp add: param_get_def)

theorem CRF_parameters_hold_no_value_witness:
  "(\<exists>m. createModel NoneRaises hub_no_carrier = Inr m \<and>
        inp_Interest_rate hub_no_carrier = 5 / 100 \<and>
        inp_Network_lifetime hub_no_carrier = 20 \<and>
        param_get ''CRF_network'' (CRF_network m) () = Inl (ValueError ''CRF_network'')) \<and>
   (\<exists>m. createModel NoneSkips hub_grid_pv = Inr m \<and>
        map_of (inp_Lifetime_tech hub_grid_pv) ''grid'' = Some 20 \<and>
        param_get ''CRF_tech'' (CRF_tech m) ''grid'' = Inl (ValueError ''CRF_tech''))"
proof -
  obtain m where m: "createModel NoneRaises hub_no_carrier = Inr m"
    using builds_hub_no_carrier by blast
  from CRF_parameters_hold_no_value [OF m]
  have 1: "param_get ''CRF_network'' (CRF_network m) () = Inl (ValueError ''CRF_network'')"
    by (simp add: param_get_def)
  have 2: "inp_Interest_rate hub_no_carrier = 5 / 100"
    "inp_Network_lifetime hub_no_carrier = 20"
    by (simp_all add: hub_no_carrier_def)
  obtain m' where m': "createModel NoneSkips hub_grid_pv = Inr m'"
    using builds_hub_grid_pv by blast
  have i: "Inputs m' = [''grid'', ''pv'']"
    by (simp add: createModel_sets(3) [OF m'] hub_grid_pv_def hub_no_carrier_def
        ordered_members_def)
  from CRF_parameters_hold_no_value [OF m']
  have 3: "param_get ''CRF_tech'' (CRF_tech m') ''grid'' = Inl (ValueError ''CRF_tech'')"
    by (simp add: param_get_def i)
  have 4: "map_of (inp_Lifetime_tech hub_grid_pv) ''grid'' = Some 20"
    by (simp add: hub_grid_pv_def hub_no_carrier_def)
  from m 1 2 m' 3 4 show ?thesis by blast
qed

theorem CRF_not_computed_counterexample:
  "inp_Interest_rate hub_no_carrier = 5 / 100 \<and>
   inp_Network_lifetime hub_no_carrier = 20 \<and>
   read_CRF_network NoneRaises hub_no_carrier = Inl (ValueError ''CRF_network'') \<and>
   read_CRF_network NoneSkips hub_no_carrier = Inl (ValueError ''CRF_network'')"
proof -
  have "read_CRF_network pol hub_no_carrier = Inl (ValueError ''CRF_network'')" for pol
    by (simp add: read_CRF_network_def createModel_unfold hub_no_carrier_def run_simps)
  then show ?thesis by (simp add: hub_no_carrier_def)
qed








text \<open>
  C10. A built model has \<^verbatim>\<open>First_hour\<close> within \<^verbatim>\<open>Time\<close> and \<^verbatim>\<open>Solar_inputs\<close>,
  \<^verbatim>\<open>Dispatchable_Tech\<close> and \<^verbatim>\<open>CHP_Tech\<close> within \<^verbatim>\<open>Inputs\<close>, and construction fails
  with the \<^verbatim>\<open>ValueError\<close> of one of these sets when the data violate one of the four
  restrictions. \<^verbatim>\<open>Inputs_wo_grid\<close> is not restricted: whatever set the data give for it,
  construction ends as it does for any other, with the same error or with the same model
  up to the component \<^verbatim>\<open>Inputs_wo_grid\<close> itself.
\<close>

theorem Inputs_wo_grid_unrestricted:
  "(\<forall>m. createModel pol inp = Inr m \<longrightarrow>
        set (First_hour m) \<subseteq> set (Time m) \<and> set (Solar_inputs m) \<subseteq> set (Inputs m) \<and>
        set (Dispatchable_Tech m) \<subseteq> set (Inputs m) \<and> set (CHP_Tech m) \<subseteq> set (Inputs m)) \<and>
   (\<not> (set (inp_First_hour inp) \<subseteq> set (inp_Time inp) \<and>
       set (inp_Solar_inputs inp) \<subseteq> set (inp_Inputs inp) \<and>
       set (inp_Dispatchable_Tech inp) \<subseteq> set (inp_Inputs inp) \<and>
       set (inp_CHP_Tech inp) \<subseteq> set (inp_Inputs inp)) \<longrightarrow>
    (\<exists>name \<in> set [''First_hour'', ''Solar_inputs'', ''Dispatchable_Tech'', ''CHP_Tech''].
       createModel pol inp = Inl (ValueError name))) \<and>
   createModel pol (inp\<lparr>inp_Inputs_wo_grid := W\<rparr>) =
     map_sum id (\<lambda>m. m\<lparr>Inputs_wo_grid := ordered_members W\<rparr>) (createModel pol inp)"
proof -
  have 1: "set (First_hour m) \<subseteq> set (Time m) \<and> set (Solar_inputs m) \<subseteq> set (Inputs m) \<and>
        set (Dispatchable_Tech m) \<subseteq> set (Inputs m) \<and> set (CHP_Tech m) \<subseteq> set (Inputs m)"
    if "createModel pol inp = Inr m" for m
    using createModel_sets [OF that] by simp
  from 1 createModel_sets_failure [where pol = pol and inp = inp] createModel_Inputs_wo_grid [where pol = pol and inp = inp and W = W]
  show ?thesis by blast
qed

theorem Inputs_wo_grid_unrestricted_witness:
  "(\<exists>m. createModel NoneRaises hub_stray_carrier = Inr m \<and>
        Inputs_wo_grid m = [''gas''] \<and> Inputs m = [] \<and>
        set (First_hour m) \<subseteq> set (Time m)) \<and>
   (\<exists>name \<in> set [''First_hour'', ''Solar_inputs'', ''Dispatchable_Tech'', ''CHP_Tech''].
      createModel NoneRaises hub_stray_solar = Inl (ValueError name))"
proof -
  obtain m0 where m0: "createModel NoneRaises hub_no_carrier = Inr m0"
    using builds_hub_no_carrier by blast
  note t = Inputs_wo_grid_unrestricted
    [where pol = NoneRaises and inp = hub_no_carrier and W = "[''gas'']"]
  from t m0 have m: "createModel NoneRaises hub_stray_carrier =
                     Inr (m0\<lparr>Inputs_wo_grid := ordered_members [''gas'']\<rparr>)"
    by (simp add: hub_stray_carrier_def)
  have i: "Inputs m0 = []"
    by (simp add: createModel_sets(3) [OF m0] hub_no_carrier_def ordered_members_def)
  from t m0 have f: "set (First_hour m0) \<subseteq> set (Time m0)" by blast
  have a: "\<exists>m. createModel NoneRaises hub_stray_carrier = Inr m \<and>
        Inputs_wo_grid m = [''gas''] \<and> Inputs m = [] \<and>
        set (First_hour m) \<subseteq> set (Time m)"
    using m i f by (simp add: ordered_members_def)
  have s: "\<not> (set (inp_First_hour hub_stray_solar) \<subseteq> set (inp_Time hub_stray_solar) \<and>
             set (inp_Solar_inputs hub_stray_solar) \<subseteq> set (inp_Inputs hub_stray_solar) \<and>
             set (inp_Dispatchable_Tech hub_stray_solar) \<subseteq> set (inp_Inputs hub_stray_solar) \<and>
             set (inp_CHP_Tech hub_stray_solar) \<subseteq> set (inp_Inputs hub_stray_solar))"
    by (simp add: hub_stray_solar_def hub_no_carrier_def)
  from Inputs_wo_grid_unrestricted
    [where pol = NoneRaises and inp = hub_stray_solar and W = "[]"] s
  have "\<exists>name \<in> set [''First_hour'', ''Solar_inputs'', ''Dispatchable_Tech'', ''CHP_Tech''].
      createModel NoneRaises hub_stray_solar = Inl (ValueError name)"
    by blast
  with a show ?thesis by blast
qed

end
